theory Spec2Isabelle
  imports Complex_Main "HOL-Library.AList"
begin

section \<open>Python values\<close>

text \<open>
  A Python \<open>str\<close> is a sequence of Unicode code points, so it is modelled as a list of
  natural numbers (Isabelle's \<open>char\<close> is a byte and could not hold the Japanese labels
  the program uses). \<open>ascii\<close> embeds an ASCII literal.
\<close>

type_synonym pstr = "nat list"

definition ascii :: "string \<Rightarrow> pstr" where
  "ascii s = map of_char s"

text \<open>
  Everything the program receives from the text-generation service went through
  \<open>json.loads\<close>, so a value of type \<open>Any\<close> is a JSON value. A \<open>dict\<close> is an
  association list in insertion order (keys distinct); \<open>JFloat\<close> holds a finite float
  by its rational value.
\<close>

datatype jval =
    JNull
  | JBool bool
  | JInt int
  | JFloat rat
  | JStr pstr
  | JArr "jval list"
  | JObj "(pstr \<times> jval) list"

type_synonym pdict = "(pstr \<times> jval) list"

text \<open>
  An exception that carries a message the program reads or builds is \<open>Exn class message\<close>
  (\<open>str(e)\<close> is the message); the built-in error kinds raised by the interpreter itself
  are constructors of \<open>error\<close>.
\<close>

datatype exn = Exn (exn_class: pstr) (exn_msg: pstr)

datatype error =
    KeyError
  | TypeError
  | AttributeError
  | IndexError
  | ValueError
  | OverflowError
  | Raised exn

text \<open>
  A raised exception ends the computation: \<open>ebind x f\<close> runs \<open>f\<close> on the value of
  \<open>x\<close> unless \<open>x\<close> raised.
\<close>

definition ebind :: "'e + 'a \<Rightarrow> ('a \<Rightarrow> 'e + 'b) \<Rightarrow> 'e + 'b" where
  "ebind x f = (case x of Inl e \<Rightarrow> Inl e | Inr v \<Rightarrow> f v)"

text \<open>A loop over a list that builds a list: the first exception ends it.\<close>

fun emap :: "('a \<Rightarrow> 'e + 'b) \<Rightarrow> 'a list \<Rightarrow> 'e + 'b list" where
  "emap f [] = Inr []"
| "emap f (x # xs) = ebind (f x) (\<lambda>y. ebind (emap f xs) (\<lambda>ys. Inr (y # ys)))"

text \<open>Truth value testing (\<open>if x\<close>, \<open>x and y\<close>, \<open>not x\<close>).\<close>

fun truthy :: "jval \<Rightarrow> bool" where
  "truthy JNull = False"
| "truthy (JBool b) = b"
| "truthy (JInt i) = (i \<noteq> 0)"
| "truthy (JFloat r) = (r \<noteq> 0)"
| "truthy (JStr s) = (s \<noteq> [])"
| "truthy (JArr xs) = (xs \<noteq> [])"
| "truthy (JObj d) = (d \<noteq> [])"

text \<open>
  Equality (\<open>x == y\<close>). Numbers compare by value whatever their type, and a boolean is
  the integer 0 or 1, so \<open>1 == 1.0 == True\<close>; \<open>None\<close> equals only itself; strings are
  equal when their code points are; lists are equal element by element; dicts are equal
  when they have the same keys with equal values, in whatever order.
\<close>

fun number :: "jval \<Rightarrow> rat option" where
  "number (JBool b) = Some (if b then 1 else 0)"
| "number (JInt i) = Some (of_int i)"
| "number (JFloat r) = Some r"
| "number _ = None"

function (sequential) py_eq :: "jval \<Rightarrow> jval \<Rightarrow> bool" where
  "py_eq JNull b = (b = JNull)"
| "py_eq (JStr s) b = (b = JStr s)"
| "py_eq (JArr xs) b = (case b of JArr ys \<Rightarrow> list_all2 py_eq xs ys | _ \<Rightarrow> False)"
| "py_eq (JObj d) b =
     (case b of
        JObj e \<Rightarrow>
          set (map fst d) = set (map fst e) \<and>
          list_all (\<lambda>k. case map_of d k of
                          None \<Rightarrow> False
                        | Some v \<Rightarrow> (case map_of e k of None \<Rightarrow> False | Some w \<Rightarrow> py_eq v w))
            (map fst d)
      | _ \<Rightarrow> False)"
| "py_eq a b = (number b = number a)"
  by pat_completeness auto
termination
proof (relation "measure (\<lambda>p. size (fst p))", goal_cases)
  case 1
  show ?case by simp
next
  case (2 xs b ys z y)
  then have "size z \<le> size_list size xs" by (simp add: size_list_estimation')
  then show ?case by simp
next
  case (3 d b e k v w)
  have "map_of d k = Some v \<Longrightarrow> size v < Suc (size_list (size_prod (\<lambda>x. 0) size) d)"
    by (induction d) (auto split: if_splits)
  with 3 show ?case by simp
qed

text \<open>
  Iteration (\<open>for x in v\<close>, \<open>enumerate(v)\<close>, \<open>list.extend(v)\<close>): a list yields its
  elements, a string its characters, a dict its keys; anything else raises TypeError.
\<close>

fun py_iter :: "jval \<Rightarrow> error + jval list" where
  "py_iter (JArr xs) = Inr xs"
| "py_iter (JStr s) = Inr (map (\<lambda>c. JStr [c]) s)"
| "py_iter (JObj d) = Inr (map (\<lambda>kv. JStr (fst kv)) d)"
| "py_iter _ = Inl TypeError"

text \<open>\<open>len(v)\<close>.\<close>

fun py_len :: "jval \<Rightarrow> error + nat" where
  "py_len (JArr xs) = Inr (length xs)"
| "py_len (JStr s) = Inr (length s)"
| "py_len (JObj d) = Inr (length d)"
| "py_len _ = Inl TypeError"

text \<open>\<open>d.get(k, default)\<close> on a dict, and on a value of type \<open>Any\<close> (only a dict has \<open>get\<close>).\<close>

definition dict_get :: "pdict \<Rightarrow> pstr \<Rightarrow> jval \<Rightarrow> jval" where
  "dict_get d k dflt = (case map_of d k of None \<Rightarrow> dflt | Some v \<Rightarrow> v)"

fun obj_get :: "jval \<Rightarrow> pstr \<Rightarrow> jval \<Rightarrow> error + jval" where
  "obj_get (JObj d) k dflt = Inr (dict_get d k dflt)"
| "obj_get _ k dflt = Inl AttributeError"

text \<open>
  \<open>d.update(m)\<close>: the items of \<open>m\<close> are stored in order; a key already present keeps its
  position, a new key is appended. An association list stands for the dict its first
  occurrences give (\<open>map_of\<close>), so a repeated key of \<open>m\<close>, which no Python dict has, is
  dropped first: \<open>clearjunk m = m\<close> for every list with distinct keys.
\<close>

definition dict_update :: "pdict \<Rightarrow> pdict \<Rightarrow> pdict" where
  "dict_update d m = fold (\<lambda>kv. AList.update (fst kv) (snd kv)) (AList.clearjunk m) d"

text \<open>
  \<open>x < len(xs)\<close> for \<open>x\<close> of type \<open>Any\<close>: numbers (and booleans, which are integers)
  compare; \<open>None\<close>, strings, lists and dicts raise TypeError.
\<close>

fun py_lt_len :: "jval \<Rightarrow> nat \<Rightarrow> error + bool" where
  "py_lt_len (JInt i) n = Inr (i < int n)"
| "py_lt_len (JBool b) n = Inr ((if b then 1 else 0) < n)"
| "py_lt_len (JFloat r) n = Inr (r < of_nat n)"
| "py_lt_len _ n = Inl TypeError"

text \<open>
  \<open>xs[i]\<close> for a list of length \<open>n\<close>: the position read or written. An integer index
  counts from the end when negative and raises IndexError out of range; a boolean is the
  integer 0 or 1; every other value raises TypeError.
\<close>

definition int_index :: "int \<Rightarrow> nat \<Rightarrow> error + nat" where
  "int_index i n =
     (if 0 \<le> i \<and> i < int n then Inr (nat i)
      else if i < 0 \<and> - int n \<le> i then Inr (nat (int n + i))
      else Inl IndexError)"

fun py_index :: "jval \<Rightarrow> nat \<Rightarrow> error + nat" where
  "py_index (JInt i) n = int_index i n"
| "py_index (JBool b) n = int_index (if b then 1 else 0) n"
| "py_index _ n = Inl TypeError"

section \<open>Canonical state\<close>

text \<open>
  The dict \<open>current_data\<close> passed to the modification service, with the keys the service
  reads; a field is \<open>None\<close> when its key is absent. The containers are the program's
  own (a list of persona dicts, a grid of cells), their leaves are model output.
\<close>

record state =
  st_personas :: "pdict list option"
  st_axes :: "jval option"
  st_matrix :: "jval list list option"
  st_discussion_points :: "jval option"

section \<open>ModificationService._apply_modifications\<close>

subsection \<open>matrix cells\<close>

text \<open>
  The body of the loop over \<open>cell_updates\<close>:
  \<^verbatim>\<open>
    row_idx = update.get('row_index')
    col_idx = update.get('col_index')
    new_value = update.get('value')
    if row_idx and col_idx and row_idx < len(matrix):
        matrix[row_idx][col_idx] = new_value
  \<close>
\<close>

definition apply_cell_update :: "jval list list \<Rightarrow> jval \<Rightarrow> error + jval list list" where
  "apply_cell_update matrix update =
     ebind (obj_get update (ascii ''row_index'') JNull) (\<lambda>row_idx.
     ebind (obj_get update (ascii ''col_index'') JNull) (\<lambda>col_idx.
     ebind (obj_get update (ascii ''value'') JNull) (\<lambda>new_value.
       if truthy row_idx \<and> truthy col_idx then
         ebind (py_lt_len row_idx (length matrix)) (\<lambda>lt.
           if lt then
             ebind (py_index row_idx (length matrix)) (\<lambda>r.
             ebind (py_index col_idx (length (matrix ! r))) (\<lambda>c.
               Inr (matrix[r := (matrix ! r)[c := new_value]])))
           else Inr matrix)
       else Inr matrix)))"

fun apply_cell_updates :: "jval list list \<Rightarrow> jval list \<Rightarrow> error + jval list list" where
  "apply_cell_updates matrix [] = Inr matrix"
| "apply_cell_updates matrix (update # cell_updates) =
     ebind (apply_cell_update matrix update) (\<lambda>matrix'. apply_cell_updates matrix' cell_updates)"

subsection \<open>personas\<close>

text \<open>\<open>d[k]\<close>: KeyError when the key is absent.\<close>

definition dict_item :: "pdict \<Rightarrow> pstr \<Rightarrow> error + jval" where
  "dict_item d k = (case map_of d k of None \<Rightarrow> Inl KeyError | Some v \<Rightarrow> Inr v)"

text \<open>
  The inner loop, which stops at the first persona whose id equals the delta's:
  \<^verbatim>\<open>
    for i, orig_p in enumerate(result['personas']):
        if orig_p['id'] == mod_p['id']:
            before_companies = len(orig_p.get('companies', []))
            result['personas'][i].update(mod_p)
            after_companies = len(result['personas'][i].get('companies', []))
            break
  \<close>
  The ids are compared with \<open>==\<close>, whatever their types.
\<close>

fun merge_persona :: "pdict list \<Rightarrow> pdict \<Rightarrow> error + pdict list" where
  "merge_persona [] mod_p = Inr []"
| "merge_persona (orig_p # rest) mod_p =
     ebind (dict_item orig_p (ascii ''id'')) (\<lambda>orig_id.
     ebind (dict_item mod_p (ascii ''id'')) (\<lambda>mod_id.
       if py_eq orig_id mod_id then
         ebind (py_len (dict_get orig_p (ascii ''companies'') (JArr []))) (\<lambda>before_companies.
         ebind (py_len (dict_get (dict_update orig_p mod_p) (ascii ''companies'') (JArr []))) (\<lambda>after_companies.
           Inr (dict_update orig_p mod_p # rest)))
       else ebind (merge_persona rest mod_p) (\<lambda>rest'. Inr (orig_p # rest'))))"

text \<open>
  The body of the outer loop. The debug log lines call \<open>mod_p.get\<close>, \<open>mod_p.keys\<close> and
  \<open>len\<close> of the delta's companies, so they can raise; \<open>result['personas']\<close> raises
  KeyError when the state has no personas.
\<close>

definition apply_persona_delta :: "pdict list option \<Rightarrow> jval \<Rightarrow> error + pdict list option" where
  "apply_persona_delta ps mod_p =
     (case mod_p of
        JObj d \<Rightarrow>
          ebind (if map_of d (ascii ''companies'') \<noteq> None
                 then py_len (dict_get d (ascii ''companies'') (JArr [])) else Inr 0) (\<lambda>n.
            case ps of
              None \<Rightarrow> Inl KeyError
            | Some origs \<Rightarrow> ebind (merge_persona origs d) (\<lambda>origs'. Inr (Some origs')))
      | _ \<Rightarrow> Inl AttributeError)"

fun apply_persona_deltas :: "pdict list option \<Rightarrow> jval list \<Rightarrow> error + pdict list option" where
  "apply_persona_deltas ps [] = Inr ps"
| "apply_persona_deltas ps (mod_p # mods) =
     ebind (apply_persona_delta ps mod_p) (\<lambda>ps'. apply_persona_deltas ps' mods)"

subsection \<open>The merge\<close>

text \<open>
  \<open>result = copy.deepcopy(current_data)\<close> is the value \<open>current_data\<close> itself; the
  branches return it with one field replaced. With no \<open>matrix\<close> key the cell updates work
  on a fresh empty list, which is not part of the result.
\<close>

definition apply_modifications :: "pstr \<Rightarrow> pdict \<Rightarrow> state \<Rightarrow> error + state" where
  "apply_modifications modification_type modified_data current_data =
     (if modification_type = ascii ''personas'' then
        ebind (py_len (dict_get modified_data (ascii ''personas'') (JArr []))) (\<lambda>n.
        ebind (py_iter (dict_get modified_data (ascii ''personas'') (JArr []))) (\<lambda>modified_personas.
        ebind (apply_persona_deltas (st_personas current_data) modified_personas) (\<lambda>ps.
          Inr (current_data\<lparr>st_personas := ps\<rparr>))))
      else if modification_type = ascii ''axes'' then
        (case map_of modified_data (ascii ''axes'') of
           None \<Rightarrow> Inr current_data
         | Some a \<Rightarrow> Inr (current_data\<lparr>st_axes := Some a\<rparr>))
      else if modification_type = ascii ''matrix_cells'' then
        ebind (py_iter (dict_get modified_data (ascii ''cell_updates'') (JArr []))) (\<lambda>cell_updates.
          case st_matrix current_data of
            None \<Rightarrow> ebind (apply_cell_updates [] cell_updates) (\<lambda>m'. Inr current_data)
          | Some m \<Rightarrow>
              ebind (apply_cell_updates m cell_updates) (\<lambda>m'. Inr (current_data\<lparr>st_matrix := Some m'\<rparr>)))
      else if modification_type = ascii ''discussion_points'' then
        (case map_of modified_data (ascii ''discussion_points'') of
           None \<Rightarrow> Inr current_data
         | Some t \<Rightarrow> Inr (current_data\<lparr>st_discussion_points := Some t\<rparr>))
      else Inr current_data)"

subsection \<open>What a merge of cell updates writes\<close>

text \<open>
  \<open>plain_update m u\<close>: the update \<open>u\<close> is a record that either lacks an index (absent or
  null), or carries two positive integer indices whose row is beyond the last row of
  \<open>m\<close> or whose column lies inside that row. \<open>update_write u i j\<close> is the value \<open>u\<close>
  carries for the cell \<open>(i, j)\<close>, and \<open>last_write us i j\<close> the value of the last update
  of \<open>us\<close> that carries one.
\<close>

definition plain_update :: "jval list list \<Rightarrow> jval \<Rightarrow> bool" where
  "plain_update m u =
     (case u of
        JObj d \<Rightarrow>
          dict_get d (ascii ''row_index'') JNull = JNull \<or>
          dict_get d (ascii ''col_index'') JNull = JNull \<or>
          (case dict_get d (ascii ''row_index'') JNull of
             JInt r \<Rightarrow>
               (case dict_get d (ascii ''col_index'') JNull of
                  JInt c \<Rightarrow> 0 < r \<and> 0 < c \<and> (int (length m) \<le> r \<or> c < int (length (m ! nat r)))
                | _ \<Rightarrow> False)
           | _ \<Rightarrow> False)
      | _ \<Rightarrow> False)"

definition update_write :: "jval \<Rightarrow> nat \<Rightarrow> nat \<Rightarrow> jval option" where
  "update_write u i j =
     (case u of
        JObj d \<Rightarrow>
          if dict_get d (ascii ''row_index'') JNull = JInt (int i) \<and>
             dict_get d (ascii ''col_index'') JNull = JInt (int j)
          then Some (dict_get d (ascii ''value'') JNull) else None
      | _ \<Rightarrow> None)"

fun last_write :: "jval list \<Rightarrow> nat \<Rightarrow> nat \<Rightarrow> jval option" where
  "last_write [] i j = None"
| "last_write (u # us) i j =
     (case last_write us i j of Some v \<Rightarrow> Some v | None \<Rightarrow> update_write u i j)"



subsection \<open>What a merge of persona deltas yields\<close>

text \<open>
  \<open>persona_id p\<close> is the id a persona or a delta entry carries, if any, and \<open>same_id p q\<close>
  holds when both carry one and the two ids are equal for \<open>==\<close>. The merge stops at the
  first persona with the delta's id, so only a persona that is the first with its id
  (\<open>first_with_id\<close>) can change: \<open>merged_persona ps mods i\<close> is persona \<open>i\<close> updated, in
  order, with the delta entries that carry its id. \<open>str_id p\<close>: the id of \<open>p\<close> is a
  string.
\<close>

definition persona_id :: "pdict \<Rightarrow> jval option" where
  "persona_id p = map_of p (ascii ''id'')"







section \<open>sync_matrix_companies_with_personas\<close>

text \<open>The two header labels the function looks for, and the separator it joins with.\<close>

definition ID_HEADER :: pstr where
  "ID_HEADER = [12506, 12523, 12477, 12490, 73, 68, 47, 24180, 40802]"

definition COMPANIES_HEADER :: pstr where
  "COMPANIES_HEADER = [22312, 31821, 20225, 26989, 12452, 12513, 12540, 12472]"

definition COMPANY_SEP :: pstr where
  "COMPANY_SEP = [12289]"

text \<open>\<open>xs.index(x)\<close>, with \<open>None\<close> for the ValueError the function catches.\<close>

fun list_index :: "'a list \<Rightarrow> 'a \<Rightarrow> nat option" where
  "list_index [] x = None"
| "list_index (y # ys) x = (if y = x then Some 0 else map_option Suc (list_index ys x))"

text \<open>
  \<open>str.strip()\<close> removes the code points for which \<open>str.isspace\<close> holds; \<open>before_slash\<close>
  is \<open>cell.split("/", 1)[0]\<close>; \<open>py_join\<close> is \<open>sep.join(xs)\<close>.
\<close>

definition py_isspace :: "nat \<Rightarrow> bool" where
  "py_isspace c =
     ((9 \<le> c \<and> c \<le> 13) \<or> (28 \<le> c \<and> c \<le> 32) \<or> c = 133 \<or> c = 160 \<or> c = 5760 \<or>
      (8192 \<le> c \<and> c \<le> 8202) \<or> c = 8232 \<or> c = 8233 \<or> c = 8239 \<or> c = 8287 \<or> c = 12288)"

definition py_strip :: "pstr \<Rightarrow> pstr" where
  "py_strip s = rev (dropWhile py_isspace (rev (dropWhile py_isspace s)))"

definition before_slash :: "pstr \<Rightarrow> pstr" where
  "before_slash cell = takeWhile (\<lambda>c. c \<noteq> 47) cell"

fun py_join :: "pstr \<Rightarrow> pstr list \<Rightarrow> pstr" where
  "py_join sep [] = []"
| "py_join sep [x] = x"
| "py_join sep (x # y # ys) = x @ sep @ py_join sep (y # ys)"

text \<open>
  \<open>str(v)\<close>: a string is itself; the text of any other value is Python's \<open>repr\<close>, which
  is a parameter \<open>repr\<close> of the functions that need it.
\<close>

definition py_str :: "(jval \<Rightarrow> pstr) \<Rightarrow> jval \<Rightarrow> pstr" where
  "py_str repr v = (case v of JStr s \<Rightarrow> s | _ \<Rightarrow> repr v)"

text \<open>A list or a dict cannot be a dict key (TypeError: unhashable type).\<close>

fun hashable :: "jval \<Rightarrow> bool" where
  "hashable (JArr xs) = False"
| "hashable (JObj d) = False"
| "hashable _ = True"

text \<open>
  \<^verbatim>\<open>
    for p in personas or []:
        pid = p.get("id")
        if not pid:
            continue
        persona_companies[pid] = p.get("companies", [])
  \<close>
  The dict is a map from keys to values. (Python looks a key up by \<open>==\<close> and would
  treat \<open>1\<close>, \<open>1.0\<close> and \<open>True\<close> as one key; the function only looks strings up.)
\<close>

fun collect_persona_companies :: "pdict list \<Rightarrow> (jval \<rightharpoonup> jval) \<Rightarrow> error + (jval \<rightharpoonup> jval)" where
  "collect_persona_companies [] persona_companies = Inr persona_companies"
| "collect_persona_companies (p # ps) persona_companies =
     (if \<not> truthy (dict_get p (ascii ''id'') JNull)
      then collect_persona_companies ps persona_companies
      else if \<not> hashable (dict_get p (ascii ''id'') JNull) then Inl TypeError
      else collect_persona_companies ps
             (persona_companies(dict_get p (ascii ''id'') JNull \<mapsto>
                dict_get p (ascii ''companies'') (JArr []))))"

text \<open>
  \<^verbatim>\<open>
    if isinstance(companies, list):
        companies_str = SEP.join(str(c) for c in companies)   # SEP is U+3001
    else:
        companies_str = str(companies)
  \<close>
\<close>

definition companies_str :: "(jval \<Rightarrow> pstr) \<Rightarrow> jval \<Rightarrow> pstr" where
  "companies_str repr companies =
     (case companies of
        JArr cs \<Rightarrow> py_join COMPANY_SEP (map (py_str repr) cs)
      | _ \<Rightarrow> py_str repr companies)"

text \<open>
  The body of the loop over the data rows; \<open>cell.split\<close> raises AttributeError when the
  cell is not a string.
  \<^verbatim>\<open>
    if len(row) <= max(id_col, companies_col):
        continue
    cell = row[id_col]
    persona_id = (cell.split("/", 1)[0] or "").strip()
    if not persona_id:
        continue
    companies = persona_companies.get(persona_id)
    if companies is None:
        continue
    ...
    row[companies_col] = companies_str
  \<close>
\<close>

definition sync_row ::
  "(jval \<Rightarrow> pstr) \<Rightarrow> nat \<Rightarrow> nat \<Rightarrow> (jval \<rightharpoonup> jval) \<Rightarrow> jval list \<Rightarrow> error + jval list" where
  "sync_row repr id_col companies_col persona_companies row =
     (if length row \<le> max id_col companies_col then Inr row
      else
        (case row ! id_col of
           JStr cell \<Rightarrow>
             if py_strip (before_slash cell) = [] then Inr row
             else
               (case persona_companies (JStr (py_strip (before_slash cell))) of
                  None \<Rightarrow> Inr row
                | Some companies \<Rightarrow>
                    if companies = JNull then Inr row
                    else Inr (row[companies_col := JStr (companies_str repr companies)]))
         | _ \<Rightarrow> Inl AttributeError))"

text \<open>
  The function changes the rows in place and returns the same list; the model returns the
  new grid. (Rows are separate lists: the program builds each row afresh.)
\<close>

definition sync_matrix_companies_with_personas ::
  "(jval \<Rightarrow> pstr) \<Rightarrow> jval list list \<Rightarrow> pdict list \<Rightarrow> error + jval list list" where
  "sync_matrix_companies_with_personas repr matrix personas =
     (if matrix = [] \<or> length matrix < 2 then Inr matrix
      else
        (case list_index (hd matrix) (JStr ID_HEADER) of
           None \<Rightarrow> Inr matrix
         | Some id_col \<Rightarrow>
             (case list_index (hd matrix) (JStr COMPANIES_HEADER) of
                None \<Rightarrow> Inr matrix
              | Some companies_col \<Rightarrow>
                  ebind (collect_persona_companies personas Map.empty) (\<lambda>persona_companies.
                  ebind (emap (sync_row repr id_col companies_col persona_companies) (tl matrix)) (\<lambda>rows.
                    Inr (hd matrix # rows))))))"

subsection \<open>What a resynchronisation may change\<close>

text \<open>
  \<open>row_id_token id_col row\<close> is the leading id token of a row: the text of its id cell
  before the first \<open>/\<close>, stripped of surrounding white space. \<open>id_cells_are_str m\<close> says
  that the id column of the data rows holds strings, \<open>ids_hashable ps\<close> that no persona
  has a non-empty list or dict as its id.
\<close>

definition row_id_token :: "nat \<Rightarrow> jval list \<Rightarrow> pstr" where
  "row_id_token id_col row =
     (case row ! id_col of JStr cell \<Rightarrow> py_strip (before_slash cell) | _ \<Rightarrow> [])"

fun is_JStr :: "jval \<Rightarrow> bool" where
  "is_JStr (JStr s) = True"
| "is_JStr _ = False"

definition id_cells_are_str :: "jval list list \<Rightarrow> bool" where
  "id_cells_are_str m =
     (case list_index (hd m) (JStr ID_HEADER) of
        None \<Rightarrow> True
      | Some id_col \<Rightarrow> list_all (\<lambda>row. length row \<le> id_col \<or> is_JStr (row ! id_col)) (tl m))"

definition ids_hashable :: "pdict list \<Rightarrow> bool" where
  "ids_hashable ps =
     list_all (\<lambda>p. \<not> truthy (dict_get p (ascii ''id'') JNull) \<or>
                    hashable (dict_get p (ascii ''id'') JNull)) ps"

section \<open>Step4MatrixEvaluator\<close>

definition INDUSTRY_HEADER :: pstr where
  "INDUSTRY_HEADER = [26989, 30028]"

definition JOB_TYPE_HEADER :: pstr where
  "JOB_TYPE_HEADER = [32887, 31278]"

definition DEFAULT_AGE_RANGES :: "pstr list" where
  "DEFAULT_AGE_RANGES = [ascii ''25-29'', ascii ''30-39'', ascii ''40-49'']"

subsection \<open>_convert_to_2d_list\<close>

text \<open>
  \<open>column_name = f"{axis['category']} - {axis['item']}"\<close>: KeyError when the axis lacks
  one of the two keys.
\<close>

definition column_name :: "(jval \<Rightarrow> pstr) \<Rightarrow> pdict \<Rightarrow> error + pstr" where
  "column_name repr axis =
     ebind (dict_item axis (ascii ''category'')) (\<lambda>category.
     ebind (dict_item axis (ascii ''item'')) (\<lambda>item.
       Inr (py_str repr category @ ascii '' - '' @ py_str repr item)))"

text \<open>\<open>sep.join(xs)\<close> for a list of values of type \<open>Any\<close>: TypeError unless all are strings.\<close>

fun str_items :: "jval list \<Rightarrow> error + pstr list" where
  "str_items [] = Inr []"
| "str_items (JStr s # xs) = ebind (str_items xs) (\<lambda>ss. Inr (s # ss))"
| "str_items (v # xs) = Inl TypeError"

text \<open>
  \<^verbatim>\<open>
    companies = row_data.get('companies', '')
    if isinstance(companies, list):
        companies = SEP.join(companies)
  \<close>
\<close>

definition companies_cell :: "jval \<Rightarrow> error + jval" where
  "companies_cell companies =
     (case companies of
        JArr cs \<Rightarrow> ebind (str_items cs) (\<lambda>ss. Inr (JStr (py_join COMPANY_SEP ss)))
      | _ \<Rightarrow> Inr companies)"

text \<open>
  \<^verbatim>\<open>
    for axis in axes:
        column_name = f"{axis['category']} - {axis['item']}"
        evaluation = evaluations.get(column_name, "")
        row.append(evaluation)
  \<close>
\<close>

definition evaluation_cell :: "(jval \<Rightarrow> pstr) \<Rightarrow> jval \<Rightarrow> pdict \<Rightarrow> error + jval" where
  "evaluation_cell repr evaluations axis =
     ebind (column_name repr axis) (\<lambda>name. obj_get evaluations name (JStr []))"

text \<open>The body of the loop over \<open>matrix_data\<close>: one data row.\<close>

definition convert_row :: "(jval \<Rightarrow> pstr) \<Rightarrow> pdict list \<Rightarrow> jval \<Rightarrow> error + jval list" where
  "convert_row repr axes row_data =
     ebind (obj_get row_data (ascii ''persona_id'') (JStr [])) (\<lambda>persona_id.
     ebind (obj_get row_data (ascii ''age_range'') (JStr [])) (\<lambda>age_range.
     ebind (obj_get row_data (ascii ''industry'') (JStr [])) (\<lambda>industry.
     ebind (obj_get row_data (ascii ''job_type'') (JStr [])) (\<lambda>job_type.
     ebind (obj_get row_data (ascii ''companies'') (JStr [])) (\<lambda>companies0.
     ebind (companies_cell companies0) (\<lambda>companies.
     ebind (obj_get row_data (ascii ''evaluations'') (JObj [])) (\<lambda>evaluations.
     ebind (emap (evaluation_cell repr evaluations) axes) (\<lambda>cells.
       Inr ([JStr (py_str repr persona_id @ ascii ''/'' @ py_str repr age_range),
             industry, job_type, companies] @ cells)))))))))"

definition convert_to_2d_list ::
  "(jval \<Rightarrow> pstr) \<Rightarrow> jval list \<Rightarrow> pdict list \<Rightarrow> pdict list \<Rightarrow> pstr list \<Rightarrow> error + jval list list" where
  "convert_to_2d_list repr matrix_data personas axes age_ranges =
     ebind (emap (column_name repr) axes) (\<lambda>names.
     ebind (emap (convert_row repr axes) matrix_data) (\<lambda>rows.
       Inr (([JStr ID_HEADER, JStr INDUSTRY_HEADER, JStr JOB_TYPE_HEADER, JStr COMPANIES_HEADER]
             @ map JStr names) # rows)))"

subsection \<open>validate_matrix\<close>

text \<open>\<open>expected_rows\<close> is \<open>None\<close> when the caller does not pass it.\<close>

definition validate_matrix :: "jval list list \<Rightarrow> nat option \<Rightarrow> error + bool" where
  "validate_matrix m expected_rows =
     (if m = [] then Inl ValueError
      else if (case expected_rows of None \<Rightarrow> False | Some n \<Rightarrow> length m \<noteq> n + 1)
      then Inl ValueError
      else if list_ex (\<lambda>row. length row \<noteq> length (hd m)) (tl m) then Inl ValueError
      else Inr True)"

subsection \<open>evaluate_matrix\<close>

text \<open>
  The loop over the personas. \<open>generate_json idx persona\<close> is what building the prompt for
  one persona and calling \<open>self.llm.generate_json\<close> gives at the call number \<open>idx\<close>: a
  parsed JSON value, or an exception.
  \<^verbatim>\<open>
    for idx, persona in enumerate(personas):
        ...
        result = self.llm.generate_json(prompt=prompt, ...)
        matrix_data = result.get('matrix', [])
        all_matrix_data.extend(matrix_data)
  \<close>
\<close>

fun collect_matrix_data ::
  "(nat \<Rightarrow> pdict \<Rightarrow> error + jval) \<Rightarrow> nat \<Rightarrow> pdict list \<Rightarrow> error + jval list" where
  "collect_matrix_data generate_json idx [] = Inr []"
| "collect_matrix_data generate_json idx (persona # rest) =
     ebind (generate_json idx persona) (\<lambda>result.
     ebind (obj_get result (ascii ''matrix'') (JArr [])) (\<lambda>matrix_data.
     ebind (py_iter matrix_data) (\<lambda>items.
     ebind (collect_matrix_data generate_json (Suc idx) rest) (\<lambda>more.
       Inr (items @ more)))))"

text \<open>
  The matrix as assembled, before validation, and the whole stage. The \<open>except\<close> clause
  logs and re-raises, so an exception of the body is the stage's.
\<close>

definition assemble_matrix ::
  "(jval \<Rightarrow> pstr) \<Rightarrow> (nat \<Rightarrow> pdict \<Rightarrow> error + jval) \<Rightarrow> pdict list \<Rightarrow> pdict list \<Rightarrow>
   pstr list \<Rightarrow> error + jval list list" where
  "assemble_matrix repr generate_json personas axes age_ranges =
     ebind (collect_matrix_data generate_json 0 personas) (\<lambda>all_matrix_data.
       convert_to_2d_list repr all_matrix_data personas axes age_ranges)"

definition evaluate_matrix ::
  "(jval \<Rightarrow> pstr) \<Rightarrow> (nat \<Rightarrow> pdict \<Rightarrow> error + jval) \<Rightarrow> pdict list \<Rightarrow> pdict list \<Rightarrow>
   pstr list option \<Rightarrow> error + jval list list" where
  "evaluate_matrix repr generate_json personas axes age_ranges =
     ebind (assemble_matrix repr generate_json personas axes
              (case age_ranges of None \<Rightarrow> DEFAULT_AGE_RANGES | Some a \<Rightarrow> a)) (\<lambda>m.
     ebind (validate_matrix m
              (Some (length personas *
                     length (case age_ranges of None \<Rightarrow> DEFAULT_AGE_RANGES | Some a \<Rightarrow> a)))) (\<lambda>ok.
       Inr m))"

subsection \<open>Row records the assembly accepts\<close>

text \<open>
  \<open>axis_has_keys\<close>: the axis carries a category and an item. \<open>typed_row_record axes r\<close>:
  the row record \<open>r\<close> is a dict whose \<open>companies\<close>, when a list, is a list of strings, and
  whose \<open>evaluations\<close>, when present and read (there is an axis), is a dict.
\<close>

definition axis_has_keys :: "pdict \<Rightarrow> bool" where
  "axis_has_keys axis =
     (map_of axis (ascii ''category'') \<noteq> None \<and> map_of axis (ascii ''item'') \<noteq> None)"

fun is_JObj :: "jval \<Rightarrow> bool" where
  "is_JObj (JObj d) = True"
| "is_JObj _ = False"

definition typed_row_record :: "pdict list \<Rightarrow> jval \<Rightarrow> bool" where
  "typed_row_record axes r =
     (case r of
        JObj d \<Rightarrow>
          (case dict_get d (ascii ''companies'') (JStr []) of
             JArr cs \<Rightarrow> list_all is_JStr cs
           | _ \<Rightarrow> True) \<and>
          (axes = [] \<or> is_JObj (dict_get d (ascii ''evaluations'') (JObj [])))
      | _ \<Rightarrow> False)"

text \<open>
  What the assembly is expected to produce from a typed row record: \<open>record_field r k\<close> is
  the field \<open>k\<close> of the record when present, \<open>or_empty\<close> replaces an absent field by the
  empty string, \<open>evaluation_of r name\<close> is the entry of the record's evaluations mapping
  under the column label \<open>name\<close>, and \<open>axis_label\<close> is the column label of an axis.
\<close>

definition record_field :: "jval \<Rightarrow> pstr \<Rightarrow> jval option" where
  "record_field r k = (case r of JObj d \<Rightarrow> map_of d k | _ \<Rightarrow> None)"

definition or_empty :: "jval option \<Rightarrow> jval" where
  "or_empty v = (case v of None \<Rightarrow> JStr [] | Some x \<Rightarrow> x)"

definition evaluation_of :: "jval \<Rightarrow> pstr \<Rightarrow> jval option" where
  "evaluation_of r name =
     (case record_field r (ascii ''evaluations'') of
        Some (JObj ev) \<Rightarrow> map_of ev name
      | _ \<Rightarrow> None)"

definition axis_label :: "(jval \<Rightarrow> pstr) \<Rightarrow> pdict \<Rightarrow> pstr" where
  "axis_label repr axis =
     py_str repr (dict_get axis (ascii ''category'') JNull) @ ascii '' - '' @
     py_str repr (dict_get axis (ascii ''item'') JNull)"

fun str_of :: "jval \<Rightarrow> pstr" where
  "str_of (JStr s) = s"
| "str_of _ = []"

definition rendered_companies :: "jval option \<Rightarrow> jval" where
  "rendered_companies v =
     (case v of
        None \<Rightarrow> JStr []
      | Some (JArr cs) \<Rightarrow> JStr (py_join COMPANY_SEP (map str_of cs))
      | Some x \<Rightarrow> x)"

definition expected_header :: "(jval \<Rightarrow> pstr) \<Rightarrow> pdict list \<Rightarrow> jval list" where
  "expected_header repr axes =
     [JStr ID_HEADER, JStr INDUSTRY_HEADER, JStr JOB_TYPE_HEADER, JStr COMPANIES_HEADER]
     @ map (\<lambda>axis. JStr (axis_label repr axis)) axes"

definition expected_row :: "(jval \<Rightarrow> pstr) \<Rightarrow> pdict list \<Rightarrow> jval \<Rightarrow> jval list" where
  "expected_row repr axes r =
     [JStr (py_str repr (or_empty (record_field r (ascii ''persona_id''))) @ ascii ''/'' @
            py_str repr (or_empty (record_field r (ascii ''age_range'')))),
      or_empty (record_field r (ascii ''industry'')),
      or_empty (record_field r (ascii ''job_type'')),
      rendered_companies (record_field r (ascii ''companies''))]
     @ map (\<lambda>axis. or_empty (evaluation_of r (axis_label repr axis))) axes"

section \<open>LLMClient.generate_with_retry\<close>

definition MAX_RETRIES :: int where
  "MAX_RETRIES = 3"

definition RETRY_DELAY :: nat where
  "RETRY_DELAY = 2"

text \<open>The messages of the two exceptions the function builds itself.\<close>

definition RATE_LIMIT_ABORT_MSG :: pstr where
  "RATE_LIMIT_ABORT_MSG =
     [79, 112, 101, 110, 65, 73, 32, 65, 80, 73, 12398, 12524, 12540, 12488, 21046, 38480,
      12395, 12424, 12426, 20966, 29702, 12434, 20013, 26029, 12375, 12414, 12375, 12383]"

definition RETRIES_EXHAUSTED_MSG :: pstr where
  "RETRIES_EXHAUSTED_MSG =
     [20104, 26399, 12375, 12394, 12356, 12456, 12521, 12540, 58, 32, 26368, 22823, 12522,
      12488, 12521, 12452, 22238, 25968, 12395, 21040, 36948, 12375, 12414, 12375, 12383]"

text \<open>
  \<open>str.lower()\<close>: the ASCII capitals, and the two code points outside ASCII whose lower
  case contains an ASCII letter (U+0130 and the Kelvin sign U+212A). Every other code
  point outside ASCII is left as it is; Python maps it to code points outside ASCII, so
  the search for an ASCII text gives the same answer.
\<close>

definition lower_char :: "nat \<Rightarrow> pstr" where
  "lower_char c =
     (if 65 \<le> c \<and> c \<le> 90 then [c + 32]
      else if c = 304 then [105, 775]
      else if c = 8490 then [107]
      else [c])"

definition py_lower :: "pstr \<Rightarrow> pstr" where
  "py_lower s = concat (map lower_char s)"

text \<open>\<open>needle in text\<close> for strings.\<close>

fun py_contains :: "pstr \<Rightarrow> pstr \<Rightarrow> bool" where
  "py_contains needle [] = (needle = [])"
| "py_contains needle (c # cs) =
     (take (length needle) (c # cs) = needle \<or> py_contains needle cs)"

definition is_rate_limit :: "exn \<Rightarrow> bool" where
  "is_rate_limit e = py_contains (ascii ''rate_limit'') (py_lower (exn_msg e))"

text \<open>
  The loop \<open>for attempt in range(max_retries)\<close>, over the attempts still to make.
  \<open>generate attempt\<close> is what the call of \<open>self.generate\<close> in that attempt gives: the text,
  or the exception it raised. The result is the list of the \<open>time.sleep\<close> durations, and
  the text returned or the exception raised.
  \<^verbatim>\<open>
    for attempt in range(max_retries):
        try:
            return self.generate(...)
        except Exception as e:
            error_msg = str(e)
            if "rate_limit" in error_msg.lower():
                if attempt < max_retries - 1:
                    wait_time = 2 ** attempt
                    time.sleep(wait_time)
                    continue
                else:
                    raise Exception(RATE_LIMIT_ABORT_MSG)
            if attempt < max_retries - 1:
                time.sleep(Config.RETRY_DELAY)
                continue
            else:
                raise
    raise Exception(RETRIES_EXHAUSTED_MSG)
  \<close>
\<close>

fun retry_attempts :: "(nat \<Rightarrow> exn + pstr) \<Rightarrow> int \<Rightarrow> nat list \<Rightarrow> nat list \<times> (exn + pstr)" where
  "retry_attempts generate max_retries [] =
     ([], Inl (Exn (ascii ''Exception'') RETRIES_EXHAUSTED_MSG))"
| "retry_attempts generate max_retries (attempt # rest) =
     (case generate attempt of
        Inr text \<Rightarrow> ([], Inr text)
      | Inl e \<Rightarrow>
          if is_rate_limit e then
            (if int attempt < max_retries - 1
             then (2 ^ attempt # fst (retry_attempts generate max_retries rest),
                   snd (retry_attempts generate max_retries rest))
             else ([], Inl (Exn (ascii ''Exception'') RATE_LIMIT_ABORT_MSG)))
          else
            (if int attempt < max_retries - 1
             then (RETRY_DELAY # fst (retry_attempts generate max_retries rest),
                   snd (retry_attempts generate max_retries rest))
             else ([], Inl e)))"

definition generate_with_retry ::
  "(nat \<Rightarrow> exn + pstr) \<Rightarrow> int option \<Rightarrow> nat list \<times> (exn + pstr)" where
  "generate_with_retry generate max_retries =
     retry_attempts generate
       (case max_retries of None \<Rightarrow> MAX_RETRIES | Some n \<Rightarrow> n)
       [0..<nat (case max_retries of None \<Rightarrow> MAX_RETRIES | Some n \<Rightarrow> n)]"

section \<open>Step4_5SelfReviewer.review\<close>

definition QUALITY_UNKNOWN :: pstr where
  "QUALITY_UNKNOWN = [19981, 26126]"

definition REVIEW_FAILED :: pstr where
  "REVIEW_FAILED = [12524, 12499, 12517, 12540, 22833, 25943]"

text \<open>
  \<open>_matrix_to_markdown\<close>: one line per row, \<open>" | ".join(row)\<close> between bars, with a
  separator line after the header; the join raises TypeError on a cell that is not a
  string.
\<close>

definition markdown_line :: "jval list \<Rightarrow> error + pstr" where
  "markdown_line row =
     ebind (str_items row) (\<lambda>cells. Inr (ascii ''| '' @ py_join (ascii '' | '') cells @ ascii '' |''))"

definition matrix_to_markdown :: "jval list list \<Rightarrow> error + pstr" where
  "matrix_to_markdown matrix =
     (case matrix of
        [] \<Rightarrow> Inr []
      | header # rows \<Rightarrow>
          ebind (markdown_line header) (\<lambda>header_line.
          ebind (emap markdown_line rows) (\<lambda>row_lines.
            Inr (py_join (ascii [CHR 0x0A])
                   (header_line #
                    (ascii ''| '' @ py_join (ascii '' | '') (replicate (length header) (ascii ''---''))
                       @ ascii '' |'') #
                    row_lines)))))"

text \<open>
  \<open>f"{confidence:.2f}"\<close>: a number (or a boolean) is formatted; \<open>None\<close>, a list and a
  dict raise TypeError, a string raises ValueError, and an integer too large to convert
  to a float raises OverflowError.
\<close>

fun format_2f :: "jval \<Rightarrow> error + unit" where
  "format_2f (JInt i) = (if 2 ^ 1024 - 2 ^ 970 \<le> \<bar>i\<bar> then Inl OverflowError else Inr ())"
| "format_2f (JFloat r) = Inr ()"
| "format_2f (JBool b) = Inr ()"
| "format_2f (JStr s) = Inl ValueError"
| "format_2f _ = Inl TypeError"

text \<open>
  The body of the \<open>try\<close>. \<open>generate_json job_description matrix_markdown\<close> is what
  building the prompt and calling \<open>self.llm.generate_json\<close> gives: the parsed output, or
  the exception of the call or of the parser. The log lines format the confidence, take
  \<open>len(issues)\<close> and, when \<open>has_issues\<close> is true, call \<open>issue.get\<close> on every issue.
\<close>

definition review_try ::
  "(pstr \<Rightarrow> pstr \<Rightarrow> error + jval) \<Rightarrow> jval list list \<Rightarrow> pstr \<Rightarrow> error + jval" where
  "review_try generate_json matrix job_description =
     ebind (matrix_to_markdown matrix) (\<lambda>matrix_markdown.
     ebind (generate_json job_description matrix_markdown) (\<lambda>result.
     ebind (obj_get result (ascii ''has_issues'') (JBool False)) (\<lambda>has_issues.
     ebind (obj_get result (ascii ''issues'') (JArr [])) (\<lambda>issues.
     ebind (obj_get result (ascii ''overall_quality'') (JStr QUALITY_UNKNOWN)) (\<lambda>quality.
     ebind (obj_get result (ascii ''confidence_score'') (JFloat 0)) (\<lambda>confidence.
     ebind (format_2f confidence) (\<lambda>u.
     ebind (py_len issues) (\<lambda>n.
     ebind (if truthy has_issues
            then ebind (py_iter issues)
                   (emap (\<lambda>issue. obj_get issue (ascii ''description'') (JStr (ascii ''N/A''))))
            else Inr []) (\<lambda>descriptions.
       Inr result)))))))))"

text \<open>The result the \<open>except Exception\<close> clause returns.\<close>

definition DEFAULT_REVIEW :: jval where
  "DEFAULT_REVIEW =
     JObj [(ascii ''has_issues'', JBool False),
           (ascii ''issues'', JArr []),
           (ascii ''overall_quality'', JStr REVIEW_FAILED),
           (ascii ''confidence_score'', JFloat (1 / 2))]"

definition review ::
  "(pstr \<Rightarrow> pstr \<Rightarrow> error + jval) \<Rightarrow> jval list list \<Rightarrow> pstr \<Rightarrow> pdict list \<Rightarrow> pdict list \<Rightarrow>
   error + jval" where
  "review generate_json matrix job_description personas axes =
     (case review_try generate_json matrix job_description of
        Inl e \<Rightarrow> Inr DEFAULT_REVIEW
      | Inr result \<Rightarrow> Inr result)"

section \<open>Step2PersonaGenerator.generate_additional_personas\<close>

text \<open>\<open>str(n)\<close> for a natural number, and the id \<open>f"P{n}"\<close>.\<close>

function py_str_nat :: "nat \<Rightarrow> pstr" where
  "py_str_nat n = (if n < 10 then [48 + n] else py_str_nat (n div 10) @ [48 + n mod 10])"
  by pat_completeness auto
termination
  by (relation "measure id") auto

declare py_str_nat.simps [simp del]

definition persona_label :: "nat \<Rightarrow> pstr" where
  "persona_label n = 80 # py_str_nat n"

subsection \<open>validate_persona, validate_personas\<close>

definition validate_persona :: "pdict \<Rightarrow> error + bool" where
  "validate_persona persona =
     (if list_ex (\<lambda>key. map_of persona key = None)
           [ascii ''id'', ascii ''industry'', ascii ''job_type'', ascii ''companies'']
      then Inl ValueError
      else
        (case dict_get persona (ascii ''companies'') (JArr []) of
           JArr companies \<Rightarrow>
             if length companies < 3 \<or> length companies > 10 then Inl ValueError else Inr True
         | _ \<Rightarrow> Inl ValueError))"

definition validate_personas :: "pdict list \<Rightarrow> int option \<Rightarrow> error + bool" where
  "validate_personas personas expected_count =
     (if (case expected_count of None \<Rightarrow> False | Some n \<Rightarrow> int (length personas) \<noteq> n)
      then Inl ValueError
      else ebind (emap validate_persona personas) (\<lambda>oks. Inr True))"

subsection \<open>The additive re-run\<close>

text \<open>
  \<^verbatim>\<open>
    start_id = len(existing_personas) + 1
    for i, persona in enumerate(new_personas):
        persona['id'] = f"P{start_id + i}"
  \<close>
  \<open>assign_ids n items\<close> gives the ids from \<open>n\<close> on; the item assignment raises TypeError
  on a value that is not a dict.
\<close>

fun assign_ids :: "nat \<Rightarrow> jval list \<Rightarrow> error + pdict list" where
  "assign_ids n [] = Inr []"
| "assign_ids n (JObj persona # rest) =
     ebind (assign_ids (Suc n) rest) (\<lambda>ds.
       Inr (AList.update (ascii ''id'') (JStr (persona_label n)) persona # ds))"
| "assign_ids n (v # rest) = Inl TypeError"

text \<open>
  \<open>generate_json\<close> is what building the prompt and calling \<open>self.llm.generate_json\<close>
  gives. The summary of the existing personas reads \<open>p['industry']\<close> and
  \<open>p['job_type']\<close> (KeyError when absent). The function returns \<open>new_personas\<close>, the
  list it changed in place.
\<close>

definition generate_additional_personas ::
  "(error + jval) \<Rightarrow> pdict list \<Rightarrow> int \<Rightarrow> error + jval" where
  "generate_additional_personas generate_json existing_personas additional_count =
     ebind (emap (\<lambda>p. ebind (dict_item p (ascii ''industry'')) (\<lambda>i. dict_item p (ascii ''job_type'')))
              existing_personas) (\<lambda>existing_summary.
     ebind generate_json (\<lambda>result.
     ebind (obj_get result (ascii ''personas'') (JArr [])) (\<lambda>new_personas.
     ebind (py_iter new_personas) (\<lambda>items.
     ebind (assign_ids (length existing_personas + 1) items) (\<lambda>ds.
     ebind (validate_personas ds (Some additional_count)) (\<lambda>ok.
       Inr (case new_personas of JArr xs \<Rightarrow> JArr (map JObj ds) | _ \<Rightarrow> new_personas)))))))"

subsection \<open>The number in an id\<close>

text \<open>
  \<open>id_number p\<close> is \<open>n\<close> when the id of \<open>p\<close> is \<open>P\<close> followed by the decimal digits of
  \<open>n\<close>; \<open>max_id_number\<close> is the greatest such number among the personas (0 when there is
  none).
\<close>

fun parse_nat :: "nat \<Rightarrow> pstr \<Rightarrow> nat option" where
  "parse_nat acc [] = Some acc"
| "parse_nat acc (c # cs) =
     (if 48 \<le> c \<and> c \<le> 57 then parse_nat (10 * acc + (c - 48)) cs else None)"

definition id_number :: "pdict \<Rightarrow> nat option" where
  "id_number p =
     (case persona_id p of
        Some (JStr (c # ds)) \<Rightarrow> if c = 80 \<and> ds \<noteq> [] then parse_nat 0 ds else None
      | _ \<Rightarrow> None)"

definition max_id_number :: "pdict list \<Rightarrow> nat" where
  "max_id_number ps = foldr (\<lambda>p m. max (case id_number p of None \<Rightarrow> 0 | Some n \<Rightarrow> n) m) ps 0"

section \<open>LLMClient._parse_json\<close>

text \<open>
  The decoder is Python's \<open>json\<close> module, not code of the repository, so it is a
  parameter: \<open>loads text\<close> is what \<open>json.loads(text)\<close> gives, the decoded value or the
  message \<open>str(e)\<close> of the JSONDecodeError, and \<open>raw_decode text\<close> is what
  \<open>json.JSONDecoder().raw_decode(text)\<close> gives, the first document and the index where it
  ends, or the message of the exception.
\<close>

definition FENCE :: pstr where
  "FENCE = [96, 96, 96]"

definition FENCE_JSON :: pstr where
  "FENCE_JSON = [96, 96, 96, 106, 115, 111, 110]"

definition PARSE_FAILED_MSG :: pstr where
  "PARSE_FAILED_MSG =
     [74, 83, 79, 78, 35299, 26512, 12395, 22833, 25943, 12375, 12414, 12375, 12383, 58, 32]"

definition RESPONSE_LABEL :: pstr where
  "RESPONSE_LABEL = [24540, 31572, 58, 32]"

definition PARSE_EXHAUSTED_MSG :: pstr where
  "PARSE_EXHAUSTED_MSG =
     [20104, 26399, 12375, 12394, 12356, 12456, 12521, 12540, 58, 32, 74, 83, 79, 78, 35299,
      26512, 12398, 26368, 22823, 12522, 12488, 12521, 12452, 22238, 25968, 12395, 21040,
      36948, 12375, 12414, 12375, 12383]"

text \<open>\<open>s.startswith(p)\<close> and \<open>s.endswith(p)\<close>.\<close>

definition startswith :: "pstr \<Rightarrow> pstr \<Rightarrow> bool" where
  "startswith s p = (take (length p) s = p)"

definition endswith :: "pstr \<Rightarrow> pstr \<Rightarrow> bool" where
  "endswith s p = (length p \<le> length s \<and> drop (length s - length p) s = p)"

text \<open>
  The cleaning between two attempts: strip, drop a leading fence (with the tag \<open>json\<close> or
  none), drop a trailing fence, strip again.
  \<^verbatim>\<open>
    cleaned = response_text.strip()
    if cleaned.startswith(FENCE_JSON):
        cleaned = cleaned[7:]
    elif cleaned.startswith(FENCE):
        cleaned = cleaned[3:]
    if cleaned.endswith(FENCE):
        cleaned = cleaned[:-3]
    response_text = cleaned.strip()
  \<close>
\<close>

definition drop_leading_fence :: "pstr \<Rightarrow> pstr" where
  "drop_leading_fence cleaned =
     (if startswith cleaned FENCE_JSON then drop 7 cleaned
      else if startswith cleaned FENCE then drop 3 cleaned
      else cleaned)"

definition drop_trailing_fence :: "pstr \<Rightarrow> pstr" where
  "drop_trailing_fence cleaned =
     (if endswith cleaned FENCE then take (length cleaned - 3) cleaned else cleaned)"

definition clean_response :: "pstr \<Rightarrow> pstr" where
  "clean_response response_text =
     py_strip (drop_trailing_fence (drop_leading_fence (py_strip response_text)))"

text \<open>
  The last resort walks the original text from its first opening brace, tracking the
  brace depth outside strings. \<open>scan_braces depth in_string escape cs\<close> is the number of
  characters of \<open>cs\<close> up to and including the brace that brings the depth to zero.
  \<^verbatim>\<open>
    for i in range(start, len(text)):
        ch = text[i]
        if ch == '\\' and not escape:
            escape = True
            continue
        if ch == '"' and not escape:
            in_string = not in_string
        escape = False
        if not in_string:
            if ch == '{':
                depth += 1
            elif ch == '}':
                depth -= 1
                if depth == 0:
                    candidate = text[start:i+1]
  \<close>
\<close>

fun scan_braces :: "int \<Rightarrow> bool \<Rightarrow> bool \<Rightarrow> pstr \<Rightarrow> nat option" where
  "scan_braces depth in_string escape [] = None"
| "scan_braces depth in_string escape (ch # rest) =
     (if ch = 92 \<and> \<not> escape then map_option Suc (scan_braces depth in_string True rest)
      else if (if ch = 34 \<and> \<not> escape then \<not> in_string else in_string)
      then map_option Suc (scan_braces depth True False rest)
      else if ch = 123 then map_option Suc (scan_braces (depth + 1) False False rest)
      else if ch = 125 then
        (if depth - 1 = 0 then Some 1
         else map_option Suc (scan_braces (depth - 1) False False rest))
      else map_option Suc (scan_braces depth False False rest))"

definition first_brace_block :: "pstr \<Rightarrow> pstr option" where
  "first_brace_block text =
     (case dropWhile (\<lambda>c. c \<noteq> 123) text of
        [] \<Rightarrow> None
      | c # cs \<Rightarrow> map_option (\<lambda>n. take n (c # cs)) (scan_braces 0 False False (c # cs)))"

text \<open>
  The first complete document, tried when the message of the decoder contains
  \<open>Extra data\<close>; an exception of \<open>raw_decode\<close> is logged and dropped.
\<close>

definition first_document :: "(pstr \<Rightarrow> pstr + jval \<times> nat) \<Rightarrow> pstr \<Rightarrow> pstr \<Rightarrow> jval option" where
  "first_document raw_decode msg response_text =
     (if py_contains (ascii ''Extra data'') msg
      then (case raw_decode response_text of Inl m \<Rightarrow> None | Inr r \<Rightarrow> Some (fst r))
      else None)"

definition parse_failure :: "pstr \<Rightarrow> pstr \<Rightarrow> exn" where
  "parse_failure msg original_text =
     Exn (ascii ''Exception'')
       (PARSE_FAILED_MSG @ msg @ [10] @ RESPONSE_LABEL @ take 200 original_text @ ascii ''...'')"

definition last_resort :: "(pstr \<Rightarrow> pstr + jval) \<Rightarrow> pstr \<Rightarrow> pstr \<Rightarrow> exn + jval" where
  "last_resort loads msg original_text =
     (case first_brace_block original_text of
        None \<Rightarrow> Inl (parse_failure msg original_text)
      | Some candidate \<Rightarrow>
          (case loads candidate of
             Inl m \<Rightarrow> Inl (parse_failure msg original_text)
           | Inr result \<Rightarrow> Inr result))"

text \<open>The loop \<open>for attempt in range(max_retries)\<close>, over the attempts still to make.\<close>

fun parse_attempts ::
  "(pstr \<Rightarrow> pstr + jval) \<Rightarrow> (pstr \<Rightarrow> pstr + jval \<times> nat) \<Rightarrow> int \<Rightarrow> pstr \<Rightarrow> pstr \<Rightarrow> nat list \<Rightarrow>
   exn + jval" where
  "parse_attempts loads raw_decode max_retries original_text response_text [] =
     Inl (Exn (ascii ''Exception'') PARSE_EXHAUSTED_MSG)"
| "parse_attempts loads raw_decode max_retries original_text response_text (attempt # rest) =
     (case loads response_text of
        Inr result \<Rightarrow> Inr result
      | Inl msg \<Rightarrow>
          (case first_document raw_decode msg response_text of
             Some result \<Rightarrow> Inr result
           | None \<Rightarrow>
               if int attempt < max_retries - 1
               then parse_attempts loads raw_decode max_retries original_text
                      (clean_response response_text) rest
               else last_resort loads msg original_text))"

definition parse_json ::
  "(pstr \<Rightarrow> pstr + jval) \<Rightarrow> (pstr \<Rightarrow> pstr + jval \<times> nat) \<Rightarrow> pstr \<Rightarrow> int option \<Rightarrow> exn + jval" where
  "parse_json loads raw_decode response_text max_retries =
     parse_attempts loads raw_decode
       (case max_retries of None \<Rightarrow> 3 | Some n \<Rightarrow> n) response_text response_text
       [0..<nat (case max_retries of None \<Rightarrow> 3 | Some n \<Rightarrow> n)]"

subsection \<open>When the decoder finds no document\<close>

text \<open>
  \<open>no_document loads raw_decode text\<close>: the decoder rejects the text, and either its message
  does not speak of extra data or \<open>raw_decode\<close> fails too. \<open>all_space w\<close>: every code point
  of \<open>w\<close> is white space.
\<close>

definition no_document :: "(pstr \<Rightarrow> pstr + jval) \<Rightarrow> (pstr \<Rightarrow> pstr + jval \<times> nat) \<Rightarrow> pstr \<Rightarrow> bool" where
  "no_document loads raw_decode text =
     (case loads text of
        Inr v \<Rightarrow> False
      | Inl msg \<Rightarrow> first_document raw_decode msg text = None)"

definition all_space :: "pstr \<Rightarrow> bool" where
  "all_space w = list_all py_isspace w"

subsection \<open>Brace-delimited documents\<close>

text \<open>
  The texts the last resort is meant for, described without the scanner. A string literal
  is a quotation mark, a body and a quotation mark, where the body (\<open>string_body\<close>) is made
  of code points other than the quotation mark and the backslash and of backslash escapes.
  The inside of a block (\<open>block_body\<close>) is made of code points other than the quotation
  mark, the backslash and the two braces, of string literals, and of blocks in braces. A
  \<open>brace_document\<close> is such an inside between an opening and a closing brace. Every JSON
  object text has this form.
\<close>

inductive string_body :: "pstr \<Rightarrow> bool" where
  sb_end: "string_body []"
| sb_char: "c \<noteq> 34 \<Longrightarrow> c \<noteq> 92 \<Longrightarrow> string_body s \<Longrightarrow> string_body (c # s)"
| sb_escape: "string_body s \<Longrightarrow> string_body (92 # c # s)"

code_pred string_body .

inductive block_body :: "pstr \<Rightarrow> bool" where
  bb_end: "block_body []"
| bb_char: "c \<noteq> 34 \<Longrightarrow> c \<noteq> 92 \<Longrightarrow> c \<noteq> 123 \<Longrightarrow> c \<noteq> 125 \<Longrightarrow> block_body s \<Longrightarrow>
     block_body (c # s)"
| bb_string: "string_body lit \<Longrightarrow> block_body s \<Longrightarrow> block_body (34 # lit @ 34 # s)"
| bb_block: "block_body b \<Longrightarrow> block_body s \<Longrightarrow> block_body (123 # b @ 125 # s)"

code_pred block_body .

definition brace_document :: "pstr \<Rightarrow> bool" where
  "brace_document j = (\<exists>b. block_body b \<and> j = 123 # b @ [125])"

subsection \<open>A decoder for concrete texts\<close>

text \<open>
  A decoder for the JSON texts without fraction, exponent and \<open>\u\<close> escape, to put in
  the place of the parameters at concrete texts. As \<open>json.loads\<close> does, \<open>json_loads\<close> skips
  white space before and after the document and reports \<open>Extra data\<close> when text is left,
  and \<open>json_raw_decode\<close> skips none. The messages are Python's without the position. The
  first argument of the mutually recursive functions bounds the nesting.
\<close>

definition skip_ws :: "pstr \<Rightarrow> pstr" where
  "skip_ws s = dropWhile (\<lambda>c. c = 32 \<or> c = 9 \<or> c = 10 \<or> c = 13) s"

definition unescape :: "nat \<Rightarrow> nat option" where
  "unescape c =
     (if c = 34 \<or> c = 92 \<or> c = 47 then Some c
      else if c = 98 then Some 8
      else if c = 102 then Some 12
      else if c = 110 then Some 10
      else if c = 114 then Some 13
      else if c = 116 then Some 9
      else None)"

fun scan_string :: "pstr \<Rightarrow> pstr \<Rightarrow> (pstr \<times> pstr) option" where
  "scan_string acc [] = None"
| "scan_string acc [c] = (if c = 34 then Some (rev acc, []) else None)"
| "scan_string acc (c # d # cs) =
     (if c = 34 then Some (rev acc, d # cs)
      else if c = 92 then
        (case unescape d of None \<Rightarrow> None | Some x \<Rightarrow> scan_string (x # acc) cs)
      else if c < 32 then None
      else scan_string (c # acc) (d # cs))"

definition is_digit :: "nat \<Rightarrow> bool" where
  "is_digit c = (48 \<le> c \<and> c \<le> 57)"

text \<open>An integer: \<open>0\<close>, or a digit from 1 to 9 followed by digits; no fraction, no exponent.\<close>

definition scan_nat :: "pstr \<Rightarrow> (nat \<times> pstr) option" where
  "scan_nat s =
     (case s of
        [] \<Rightarrow> None
      | c # cs \<Rightarrow>
          if c = 48 then Some (0, cs)
          else if is_digit c
          then (case parse_nat 0 (takeWhile is_digit s) of
                  None \<Rightarrow> None
                | Some n \<Rightarrow> Some (n, dropWhile is_digit s))
          else None)"

definition no_fraction :: "pstr \<Rightarrow> bool" where
  "no_fraction s = (case s of [] \<Rightarrow> True | c # cs \<Rightarrow> c \<noteq> 46 \<and> c \<noteq> 101 \<and> c \<noteq> 69)"

definition scan_int :: "pstr \<Rightarrow> (jval \<times> pstr) option" where
  "scan_int s =
     (case s of
        [] \<Rightarrow> None
      | c # cs \<Rightarrow>
          if c = 45
          then (case scan_nat cs of
                  None \<Rightarrow> None
                | Some r \<Rightarrow> if no_fraction (snd r) then Some (JInt (- int (fst r)), snd r) else None)
          else (case scan_nat s of
                  None \<Rightarrow> None
                | Some r \<Rightarrow> if no_fraction (snd r) then Some (JInt (int (fst r)), snd r) else None))"

fun decode_value :: "nat \<Rightarrow> pstr \<Rightarrow> (jval \<times> pstr) option"
  and decode_members :: "nat \<Rightarrow> pdict \<Rightarrow> pstr \<Rightarrow> (jval \<times> pstr) option"
  and decode_items :: "nat \<Rightarrow> jval list \<Rightarrow> pstr \<Rightarrow> (jval \<times> pstr) option" where
  "decode_value 0 s = None"
| "decode_value (Suc n) s =
     (case s of
        [] \<Rightarrow> None
      | c # cs \<Rightarrow>
          if c = 34 then map_option (\<lambda>r. (JStr (fst r), snd r)) (scan_string [] cs)
          else if c = 123 then
            (case skip_ws cs of
               [] \<Rightarrow> None
             | d # ds \<Rightarrow> if d = 125 then Some (JObj [], ds) else decode_members n [] (d # ds))
          else if c = 91 then
            (case skip_ws cs of
               [] \<Rightarrow> None
             | d # ds \<Rightarrow> if d = 93 then Some (JArr [], ds) else decode_items n [] (d # ds))
          else if startswith s (ascii ''null'') then Some (JNull, drop 4 s)
          else if startswith s (ascii ''true'') then Some (JBool True, drop 4 s)
          else if startswith s (ascii ''false'') then Some (JBool False, drop 5 s)
          else scan_int s)"
| "decode_members 0 acc s = None"
| "decode_members (Suc n) acc s =
     (case s of
        [] \<Rightarrow> None
      | c # cs \<Rightarrow>
          if c \<noteq> 34 then None
          else
            (case scan_string [] cs of
               None \<Rightarrow> None
             | Some kr \<Rightarrow>
                 (case skip_ws (snd kr) of
                    [] \<Rightarrow> None
                  | d # ds \<Rightarrow>
                      if d \<noteq> 58 then None
                      else
                        (case decode_value n (skip_ws ds) of
                           None \<Rightarrow> None
                         | Some vr \<Rightarrow>
                             (case skip_ws (snd vr) of
                                [] \<Rightarrow> None
                              | e # es \<Rightarrow>
                                  if e = 125
                                  then Some (JObj (AList.update (fst kr) (fst vr) acc), es)
                                  else if e = 44
                                  then decode_members n (AList.update (fst kr) (fst vr) acc)
                                         (skip_ws es)
                                  else None)))))"
| "decode_items 0 acc s = None"
| "decode_items (Suc n) acc s =
     (case decode_value n s of
        None \<Rightarrow> None
      | Some vr \<Rightarrow>
          (case skip_ws (snd vr) of
             [] \<Rightarrow> None
           | e # es \<Rightarrow>
               if e = 93 then Some (JArr (acc @ [fst vr]), es)
               else if e = 44 then decode_items n (acc @ [fst vr]) (skip_ws es)
               else None))"

definition json_raw_decode :: "pstr \<Rightarrow> pstr + jval \<times> nat" where
  "json_raw_decode s =
     (case decode_value (Suc (length s)) s of
        None \<Rightarrow> Inl (ascii ''Expecting value'')
      | Some vr \<Rightarrow> Inr (fst vr, length s - length (snd vr)))"

definition json_loads :: "pstr \<Rightarrow> pstr + jval" where
  "json_loads s =
     (case decode_value (Suc (length s)) (skip_ws s) of
        None \<Rightarrow> Inl (ascii ''Expecting value'')
      | Some vr \<Rightarrow>
          if skip_ws (snd vr) = [] then Inr (fst vr) else Inl (ascii ''Extra data''))"
section \<open>Basic facts\<close>

lemma ebind_simps [simp]: "ebind (Inr v) f = f v" "ebind (Inl e) f = Inl e"
  by (simp_all add: ebind_def)

lemma ebind_eq_Inr: "(ebind x f = Inr y) = (\<exists>v. x = Inr v \<and> f v = Inr y)"
  by (cases x) simp_all

lemma ascii_eq [simp]: "(ascii s = ascii t) = (s = t)"
  unfolding ascii_def by (simp add: inj_map_eq_map inj_on_def)

section \<open>Cell updates (C1)\<close>

lemma plain_update_shape:
  assumes "map length m' = map length m"
  shows "plain_update m' u = plain_update m u"
proof -
  have len: "length m' = length m" using assms by (metis length_map)
  have key: "(int (length m') \<le> r \<or> c < int (length (m' ! nat r))) =
             (int (length m) \<le> r \<or> c < int (length (m ! nat r)))" if "0 < r" for r c
  proof (cases "int (length m) \<le> r")
    case True
    then show ?thesis by (simp add: len)
  next
    case False
    with that have "nat r < length m" by linarith
    then have "length (m' ! nat r) = length (m ! nat r)"
      using assms len by (metis nth_map)
    then show ?thesis by (simp add: len)
  qed
  show ?thesis
    unfolding plain_update_def
    by (simp add: key split: jval.splits cong: conj_cong)
qed

lemma apply_cell_update_plain:
  assumes "plain_update m u"
  shows "\<exists>m'. apply_cell_update m u = Inr m' \<and> map length m' = map length m \<and>
           (\<forall>i<length m. \<forall>j<length (m ! i).
              m' ! i ! j = (case update_write u i j of None \<Rightarrow> m ! i ! j | Some v \<Rightarrow> v))"
proof -
  from assms obtain d where u: "u = JObj d"
    by (auto simp: plain_update_def split: jval.splits)
  let ?row = "dict_get d (ascii ''row_index'') JNull"
  let ?col = "dict_get d (ascii ''col_index'') JNull"
  let ?v = "dict_get d (ascii ''value'') JNull"
  consider (skip) "?row = JNull \<or> ?col = JNull"
    | (beyond) r c where "?row = JInt r \<and> ?col = JInt c \<and> 0 < r \<and> 0 < c \<and> int (length m) \<le> r"
    | (wr) r c where "?row = JInt r \<and> ?col = JInt c \<and> 0 < r \<and> 0 < c \<and> r < int (length m) \<and>
        c < int (length (m ! nat r))"
    using assms unfolding plain_update_def u
    by (auto split: jval.splits) (meson not_le)
  then show ?thesis
  proof cases
    case skip
    then have "apply_cell_update m u = Inr m"
      by (auto simp: apply_cell_update_def u)
    moreover have "\<forall>i j. update_write u i j = None"
      using skip by (auto simp: update_write_def u)
    ultimately show ?thesis by simp
  next
    case beyond
    then have "apply_cell_update m u = Inr m"
      by (auto simp: apply_cell_update_def u)
    moreover have "\<forall>i<length m. \<forall>j. update_write u i j = None"
      using beyond by (auto simp: update_write_def u)
    ultimately show ?thesis by simp
  next
    case wr
    then have ap: "apply_cell_update m u = Inr (m[nat r := (m ! nat r)[nat c := ?v]])"
      by (auto simp: apply_cell_update_def u int_index_def)
    have w: "\<And>i j. update_write u i j = (if i = nat r \<and> j = nat c then Some ?v else None)"
      using wr by (auto simp: update_write_def u)
    have rn: "nat r < length m" using wr by linarith
    have cn: "nat c < length (m ! nat r)" using wr by linarith
    have shape: "map length (m[nat r := (m ! nat r)[nat c := ?v]]) = map length m"
      using rn by (simp add: list_eq_iff_nth_eq nth_list_update)
    show ?thesis
      unfolding ap w using rn cn shape
      by (auto simp: nth_list_update)
  qed
qed

lemma apply_cell_updates_plain:
  assumes "\<forall>u\<in>set us. plain_update m u"
  shows "\<exists>m'. apply_cell_updates m us = Inr m' \<and> map length m' = map length m \<and>
           (\<forall>i<length m. \<forall>j<length (m ! i).
              m' ! i ! j = (case last_write us i j of None \<Rightarrow> m ! i ! j | Some v \<Rightarrow> v))"
  using assms
proof (induction us arbitrary: m)
  case Nil
  then show ?case by simp
next
  case (Cons u us)
  from Cons.prems have "plain_update m u" by simp
  from apply_cell_update_plain[OF this] obtain m1 where
    s1: "apply_cell_update m u = Inr m1" and sh1: "map length m1 = map length m" and
    c1: "\<forall>i<length m. \<forall>j<length (m ! i).
              m1 ! i ! j = (case update_write u i j of None \<Rightarrow> m ! i ! j | Some v \<Rightarrow> v)"
    by blast
  have "\<forall>u\<in>set us. plain_update m1 u"
    using Cons.prems plain_update_shape[OF sh1] by simp
  from Cons.IH[OF this] obtain m2 where
    s2: "apply_cell_updates m1 us = Inr m2" and sh2: "map length m2 = map length m1" and
    c2: "\<forall>i<length m1. \<forall>j<length (m1 ! i).
              m2 ! i ! j = (case last_write us i j of None \<Rightarrow> m1 ! i ! j | Some v \<Rightarrow> v)"
    by blast
  have len: "length m1 = length m" using sh1 by (metis length_map)
  have row: "\<And>i. i < length m \<Longrightarrow> length (m1 ! i) = length (m ! i)"
    using sh1 len by (metis nth_map)
  have "\<forall>i<length m. \<forall>j<length (m ! i).
          m2 ! i ! j = (case last_write (u # us) i j of None \<Rightarrow> m ! i ! j | Some v \<Rightarrow> v)"
    using c1 c2 len row by (auto split: option.splits)
  then show ?case using s1 s2 sh1 sh2 by simp
qed

text \<open>
  Claim C1, as amended. In a \<open>matrix_cells\<close> merge whose updates are plain (each lacks an
  index, or carries two positive integer indices with the row beyond the matrix or the
  column inside the row), the merge succeeds; the grid keeps its shape; every cell holds
  the value of the last update addressed to it, or its old value when no update is
  addressed to it; and every other component of the state is unchanged. So each update
  with both indices in range overwrites exactly the cell it names.
\<close>

theorem matrix_cells_merge_overwrites:
  assumes "st_matrix st = Some m"
    and "dict_get delta (ascii ''cell_updates'') (JArr []) = JArr us"
    and "\<forall>u\<in>set us. plain_update m u"
  shows "\<exists>m'. apply_modifications (ascii ''matrix_cells'') delta st = Inr (st\<lparr>st_matrix := Some m'\<rparr>) \<and>
           map length m' = map length m \<and>
           (\<forall>i<length m. \<forall>j<length (m ! i).
              m' ! i ! j = (case last_write us i j of None \<Rightarrow> m ! i ! j | Some v \<Rightarrow> v))"
proof -
  from apply_cell_updates_plain[OF assms(3)] obtain m' where
    "apply_cell_updates m us = Inr m'" "map length m' = map length m"
    "\<forall>i<length m. \<forall>j<length (m ! i).
        m' ! i ! j = (case last_write us i j of None \<Rightarrow> m ! i ! j | Some v \<Rightarrow> v)"
    by blast
  then show ?thesis
    using assms(1,2) by (auto simp: apply_modifications_def)
qed

text \<open>The hypotheses of the theorem hold for a 2 by 3 grid and four updates.\<close>

theorem matrix_cells_merge_overwrites_witness:
  "st_matrix \<lparr>st_personas = None, st_axes = None,
      st_matrix = Some [[JStr (ascii ''h0''), JStr (ascii ''h1''), JStr (ascii ''h2'')],
                     [JStr (ascii ''a''), JStr (ascii ''b''), JStr (ascii ''c'')]],
      st_discussion_points = None\<rparr>
    = Some [[JStr (ascii ''h0''), JStr (ascii ''h1''), JStr (ascii ''h2'')],
            [JStr (ascii ''a''), JStr (ascii ''b''), JStr (ascii ''c'')]] \<and>
   list_all (plain_update [[JStr (ascii ''h0''), JStr (ascii ''h1''), JStr (ascii ''h2'')],
                           [JStr (ascii ''a''), JStr (ascii ''b''), JStr (ascii ''c'')]])
     [JObj [(ascii ''row_index'', JInt 1), (ascii ''col_index'', JInt 2), (ascii ''value'', JStr (ascii ''x''))],
      JObj [(ascii ''col_index'', JInt 1), (ascii ''value'', JStr (ascii ''z''))],
      JObj [(ascii ''row_index'', JInt 1), (ascii ''col_index'', JInt 2), (ascii ''value'', JStr (ascii ''y''))],
      JObj [(ascii ''row_index'', JInt 7), (ascii ''col_index'', JInt 1), (ascii ''value'', JStr (ascii ''w''))]] \<and>
   (\<exists>m'. apply_modifications (ascii ''matrix_cells'')
       [(ascii ''cell_updates'', JArr
         [JObj [(ascii ''row_index'', JInt 1), (ascii ''col_index'', JInt 2), (ascii ''value'', JStr (ascii ''x''))],
          JObj [(ascii ''col_index'', JInt 1), (ascii ''value'', JStr (ascii ''z''))],
          JObj [(ascii ''row_index'', JInt 1), (ascii ''col_index'', JInt 2), (ascii ''value'', JStr (ascii ''y''))],
          JObj [(ascii ''row_index'', JInt 7), (ascii ''col_index'', JInt 1), (ascii ''value'', JStr (ascii ''w''))]])]
       \<lparr>st_personas = None, st_axes = None,
         st_matrix = Some [[JStr (ascii ''h0''), JStr (ascii ''h1''), JStr (ascii ''h2'')],
                        [JStr (ascii ''a''), JStr (ascii ''b''), JStr (ascii ''c'')]],
         st_discussion_points = None\<rparr>
       = Inr \<lparr>st_personas = None, st_axes = None, st_matrix = Some m', st_discussion_points = None\<rparr> \<and>
       m' ! 1 ! 2 = JStr (ascii ''y'') \<and> m' ! 1 ! 1 = JStr (ascii ''b''))"
  (is "?A \<and> ?B \<and> ?C")
proof -
  let ?m = "[[JStr (ascii ''h0''), JStr (ascii ''h1''), JStr (ascii ''h2'')],
             [JStr (ascii ''a''), JStr (ascii ''b''), JStr (ascii ''c'')]]"
  let ?us = "[JObj [(ascii ''row_index'', JInt 1), (ascii ''col_index'', JInt 2), (ascii ''value'', JStr (ascii ''x''))],
      JObj [(ascii ''col_index'', JInt 1), (ascii ''value'', JStr (ascii ''z''))],
      JObj [(ascii ''row_index'', JInt 1), (ascii ''col_index'', JInt 2), (ascii ''value'', JStr (ascii ''y''))],
      JObj [(ascii ''row_index'', JInt 7), (ascii ''col_index'', JInt 1), (ascii ''value'', JStr (ascii ''w''))]]"
  let ?st = "\<lparr>st_personas = None, st_axes = None, st_matrix = Some ?m, st_discussion_points = None\<rparr>"
  have a: ?A by simp
  have b: ?B by (simp add: plain_update_def dict_get_def)
  have d: "dict_get [(ascii ''cell_updates'', JArr ?us)] (ascii ''cell_updates'') (JArr []) = JArr ?us"
    by (simp add: dict_get_def)
  have b': "\<forall>u\<in>set ?us. plain_update ?m u" using b by (simp add: list_all_iff)
  have w12: "last_write ?us 1 2 = Some (JStr (ascii ''y''))"
    by (simp add: update_write_def dict_get_def)
  have w11: "last_write ?us 1 1 = None"
    by (simp add: update_write_def dict_get_def)
  from matrix_cells_merge_overwrites[OF a d b'] obtain m' where
    all: "apply_modifications (ascii ''matrix_cells'') [(ascii ''cell_updates'', JArr ?us)] ?st
          = Inr (?st\<lparr>st_matrix := Some m'\<rparr>) \<and>
        map length m' = map length ?m \<and>
        (\<forall>i<length ?m. \<forall>j<length (?m ! i).
              m' ! i ! j = (case last_write ?us i j of None \<Rightarrow> ?m ! i ! j | Some v \<Rightarrow> v))" ..
  note r = all[THEN conjunct1] and c = all[THEN conjunct2, THEN conjunct2]
  have c12: "m' ! 1 ! 2 = JStr (ascii ''y'')"
    using c[rule_format, of 1 2] unfolding w12 by simp
  have c11: "m' ! 1 ! 1 = JStr (ascii ''b'')"
    using c[rule_format, of 1 1] unfolding w11 by simp
  have ?C using r c12 c11 by auto
  with a b show ?thesis by blast
qed

text \<open>
  Claim C1 as stated fails: the update \<open>{row_index: 1, col_index: 0, value: x}\<close> has both
  indices present and its row within bounds, and the merge leaves cell (1, 0) as it was,
  because the guard \<open>row_idx and col_idx\<close> reads the index 0 as false. With
  \<open>col_index: 5\<close> on a row of two cells the merge raises IndexError.
\<close>

theorem matrix_cells_zero_index_counterexample:
  "apply_modifications (ascii ''matrix_cells'')
     [(ascii ''cell_updates'', JArr
        [JObj [(ascii ''row_index'', JInt 1), (ascii ''col_index'', JInt 0),
               (ascii ''value'', JStr (ascii ''x''))]])]
     \<lparr>st_personas = None, st_axes = None,
       st_matrix = Some [[JStr (ascii ''h0''), JStr (ascii ''h1'')],
                      [JStr (ascii ''a''), JStr (ascii ''b'')]],
       st_discussion_points = None\<rparr>
   = Inr \<lparr>st_personas = None, st_axes = None,
       st_matrix = Some [[JStr (ascii ''h0''), JStr (ascii ''h1'')],
                      [JStr (ascii ''a''), JStr (ascii ''b'')]],
       st_discussion_points = None\<rparr> \<and>
   JStr (ascii ''a'') \<noteq> JStr (ascii ''x'') \<and>
   apply_modifications (ascii ''matrix_cells'')
     [(ascii ''cell_updates'', JArr
        [JObj [(ascii ''row_index'', JInt 1), (ascii ''col_index'', JInt 5),
               (ascii ''value'', JStr (ascii ''x''))]])]
     \<lparr>st_personas = None, st_axes = None,
       st_matrix = Some [[JStr (ascii ''h0''), JStr (ascii ''h1'')],
                      [JStr (ascii ''a''), JStr (ascii ''b'')]],
       st_discussion_points = None\<rparr>
   = Inl IndexError"
  by (simp add: apply_modifications_def apply_cell_update_def dict_get_def int_index_def)

section \<open>Persona merge (C2)\<close>


























section \<open>Resynchronisation of the companies column (C5, C6)\<close>

lemma list_index_Some:
  "list_index xs x = Some i \<Longrightarrow> i < length xs \<and> xs ! i = x"
proof (induction xs arbitrary: i)
  case Nil
  then show ?case by simp
next
  case (Cons y ys)
  then show ?case by (auto split: if_splits)
qed

lemma header_cols_differ:
  assumes "list_index h (JStr ID_HEADER) = Some a" and "list_index h (JStr COMPANIES_HEADER) = Some b"
  shows "a \<noteq> b"
proof
  assume "a = b"
  with list_index_Some[OF assms(1)] list_index_Some[OF assms(2)]
  have "JStr ID_HEADER = JStr COMPANIES_HEADER" by simp
  then show False by (simp add: ID_HEADER_def COMPANIES_HEADER_def)
qed

lemma emap_eq_Inr:
  "emap f xs = Inr ys \<Longrightarrow> length ys = length xs \<and> (\<forall>i<length xs. f (xs ! i) = Inr (ys ! i))"
proof (induction xs arbitrary: ys)
  case Nil
  then show ?case by simp
next
  case (Cons x xs)
  from Cons.prems obtain y ys' where y: "f x = Inr y" and ys': "emap f xs = Inr ys'"
    and ys: "ys = y # ys'"
    by (auto simp: ebind_eq_Inr)
  from Cons.IH[OF ys'] y ys show ?case
    by (auto simp: nth_Cons split: nat.splits)
qed

lemma emap_Inr_I:
  "length ys = length xs \<Longrightarrow> (\<forall>i<length xs. f (xs ! i) = Inr (ys ! i)) \<Longrightarrow> emap f xs = Inr ys"
proof (induction xs arbitrary: ys)
  case Nil
  then show ?case by simp
next
  case (Cons x xs)
  from Cons.prems(1) obtain y ys' where ys: "ys = y # ys'" by (cases ys) auto
  from Cons.prems ys have "f x = Inr y" by auto
  moreover have "emap f xs = Inr ys'"
  proof (rule Cons.IH)
    show "length ys' = length xs" using Cons.prems(1) ys by simp
    show "\<forall>i<length xs. f (xs ! i) = Inr (ys' ! i)"
      using Cons.prems(2) ys by auto
  qed
  ultimately show ?case using ys by simp
qed

lemma emap_total:
  "(\<forall>x\<in>set xs. \<exists>y. f x = Inr y) \<Longrightarrow> \<exists>ys. emap f xs = Inr ys"
  by (induction xs) auto

lemma sync_row_idem:
  assumes "sync_row repr a b pc row = Inr row'" and "a \<noteq> b"
  shows "sync_row repr a b pc row' = Inr row'"
proof (cases "row' = row")
  case True
  with assms show ?thesis by simp
next
  case False
  from assms(1) False obtain cell c where
    long: "\<not> length row \<le> max a b" and cell: "row ! a = JStr cell"
    and tok: "py_strip (before_slash cell) \<noteq> []"
    and pc: "pc (JStr (py_strip (before_slash cell))) = Some c" and c: "c \<noteq> JNull"
    and row': "row' = row[b := JStr (companies_str repr c)]"
    by (auto simp: sync_row_def split: if_splits jval.splits option.splits)
  have "row' ! a = JStr cell" using row' cell assms(2) by simp
  then show ?thesis
    using long tok pc c row' by (simp add: sync_row_def)
qed

text \<open>
  Claim C5. Resynchronising twice with the same personas gives what resynchronising once
  gives: \<open>resync(resync(m, p), p) = resync(m, p)\<close>, also when the first pass raises (then
  there is no second pass, and both sides are that exception).
\<close>

theorem resync_idempotent:
  "ebind (sync_matrix_companies_with_personas repr m ps)
     (\<lambda>m'. sync_matrix_companies_with_personas repr m' ps)
   = sync_matrix_companies_with_personas repr m ps"
proof (cases "sync_matrix_companies_with_personas repr m ps")
  case (Inl e)
  then show ?thesis by simp
next
  case (Inr m')
  have "sync_matrix_companies_with_personas repr m' ps = Inr m'"
  proof (cases "m' = m")
    case True
    with Inr show ?thesis by simp
  next
    case False
    with Inr obtain a b pc rows where
      m2: "\<not> (m = [] \<or> length m < 2)" and a: "list_index (hd m) (JStr ID_HEADER) = Some a"
      and b: "list_index (hd m) (JStr COMPANIES_HEADER) = Some b"
      and pc: "collect_persona_companies ps Map.empty = Inr pc"
      and rows: "emap (sync_row repr a b pc) (tl m) = Inr rows"
      and m': "m' = hd m # rows"
      by (auto simp: sync_matrix_companies_with_personas_def ebind_eq_Inr
          split: if_splits option.splits)
    have ab: "a \<noteq> b" using header_cols_differ[OF a b] .
    from emap_eq_Inr[OF rows] have len: "length rows = length (tl m)"
      and step: "\<forall>i<length (tl m). sync_row repr a b pc (tl m ! i) = Inr (rows ! i)"
      by simp_all
    have "emap (sync_row repr a b pc) rows = Inr rows"
    proof (rule emap_Inr_I)
      show "length rows = length rows" by simp
      show "\<forall>i<length rows. sync_row repr a b pc (rows ! i) = Inr (rows ! i)"
        using step len sync_row_idem[OF _ ab] by auto
    qed
    moreover have "\<not> (m' = [] \<or> length m' < 2)" using m2 m' len by auto
    ultimately show ?thesis
      using a b pc m' by (simp add: sync_matrix_companies_with_personas_def)
  qed
  with Inr show ?thesis by simp
qed


text \<open>A run: the row of P1 is rewritten, and a second pass returns the same grid.\<close>

theorem resync_idempotent_witness:
  "sync_matrix_companies_with_personas (\<lambda>v. [])
     [[JStr ID_HEADER, JStr (ascii ''job''), JStr COMPANIES_HEADER],
      [JStr (ascii ''P1/25-29''), JStr (ascii ''x''), JStr (ascii ''old'')],
      [JStr (ascii ''P9/25-29''), JStr (ascii ''y''), JStr (ascii ''keep'')]]
     [[(ascii ''id'', JStr (ascii ''P1'')),
       (ascii ''companies'', JArr [JStr (ascii ''A''), JStr (ascii ''B'')])]]
   = Inr [[JStr ID_HEADER, JStr (ascii ''job''), JStr COMPANIES_HEADER],
          [JStr (ascii ''P1/25-29''), JStr (ascii ''x''), JStr (ascii ''A'' @ COMPANY_SEP @ ascii ''B'')],
          [JStr (ascii ''P9/25-29''), JStr (ascii ''y''), JStr (ascii ''keep'')]] \<and>
   sync_matrix_companies_with_personas (\<lambda>v. [])
     [[JStr ID_HEADER, JStr (ascii ''job''), JStr COMPANIES_HEADER],
      [JStr (ascii ''P1/25-29''), JStr (ascii ''x''), JStr (ascii ''A'' @ COMPANY_SEP @ ascii ''B'')],
      [JStr (ascii ''P9/25-29''), JStr (ascii ''y''), JStr (ascii ''keep'')]]
     [[(ascii ''id'', JStr (ascii ''P1'')),
       (ascii ''companies'', JArr [JStr (ascii ''A''), JStr (ascii ''B'')])]]
   = Inr [[JStr ID_HEADER, JStr (ascii ''job''), JStr COMPANIES_HEADER],
          [JStr (ascii ''P1/25-29''), JStr (ascii ''x''), JStr (ascii ''A'' @ COMPANY_SEP @ ascii ''B'')],
          [JStr (ascii ''P9/25-29''), JStr (ascii ''y''), JStr (ascii ''keep'')]]"
  (is "sync_matrix_companies_with_personas ?r ?m0 ?ps0 = Inr ?m1 \<and> ?s1 = Inr ?m1")
proof -
  have h: "sync_matrix_companies_with_personas ?r ?m0 ?ps0 = Inr ?m1"
    by (simp add: sync_matrix_companies_with_personas_def sync_row_def ID_HEADER_def
        COMPANIES_HEADER_def COMPANY_SEP_def dict_get_def py_strip_def before_slash_def
        py_isspace_def companies_str_def py_str_def ascii_def)
  have "ebind (sync_matrix_companies_with_personas ?r ?m0 ?ps0)
          (\<lambda>m'. sync_matrix_companies_with_personas ?r m' ?ps0)
        = sync_matrix_companies_with_personas ?r ?m0 ?ps0"
    by (rule resync_idempotent)
  then have "?s1 = Inr ?m1" unfolding h by simp
  with h show ?thesis by simp
qed

lemma collect_persona_companies_source:
  assumes "collect_persona_companies ps pc0 = Inr pc" and "pc k = Some c"
  shows "pc0 k = Some c \<or> (\<exists>p\<in>set ps. dict_get p (ascii ''id'') JNull = k)"
  using assms
proof (induction ps arbitrary: pc0)
  case Nil
  then show ?case by simp
next
  case (Cons p ps)
  show ?case
  proof (cases "truthy (dict_get p (ascii ''id'') JNull)")
    case False
    with Cons.prems have "collect_persona_companies ps pc0 = Inr pc" by simp
    from Cons.IH[OF this Cons.prems(2)] show ?thesis by auto
  next
    case True
    with Cons.prems have
      "collect_persona_companies ps
         (pc0(dict_get p (ascii ''id'') JNull \<mapsto> dict_get p (ascii ''companies'') (JArr [])))
       = Inr pc"
      by (simp split: if_splits)
    from Cons.IH[OF this Cons.prems(2)] show ?thesis
      by (auto split: if_splits)
  qed
qed

lemma collect_persona_companies_total:
  "ids_hashable ps \<Longrightarrow> \<exists>pc. collect_persona_companies ps pc0 = Inr pc"
  by (induction ps arbitrary: pc0) (auto simp: ids_hashable_def)

lemma sync_row_frame:
  assumes "sync_row repr a b pc row = Inr row'"
  shows "row' = row \<or>
         (max a b < length row \<and> row_id_token a row \<noteq> [] \<and>
          (\<exists>c. pc (JStr (row_id_token a row)) = Some c \<and> c \<noteq> JNull \<and>
               row' = row[b := JStr (companies_str repr c)]))"
  using assms
  by (auto simp: sync_row_def row_id_token_def split: if_splits jval.splits option.splits)

lemma sync_row_total:
  assumes "length row \<le> a \<or> is_JStr (row ! a)"
  shows "\<exists>row'. sync_row repr a b pc row = Inr row'"
proof (cases "length row \<le> max a b")
  case True
  then show ?thesis by (simp add: sync_row_def)
next
  case False
  with assms obtain cell where "row ! a = JStr cell"
    by (cases "row ! a") auto
  with False show ?thesis
    by (auto simp: sync_row_def split: option.splits)
qed

text \<open>
  Claim C6, as amended. When no persona has a non-empty list or dict as its id and the id
  column of the data rows holds strings, the resynchronisation returns a grid. Whenever it
  returns a grid, the grid has the same rows of the same lengths, and a row that changed
  is a data row (not the header) that is long enough for both located columns, differs
  from the old row only in the companies column, and has a non-empty leading id token that
  is the id of a persona of the list.
\<close>

theorem resync_frame:
  "(ids_hashable ps \<and> id_cells_are_str m \<longrightarrow>
      (\<exists>m'. sync_matrix_companies_with_personas repr m ps = Inr m')) \<and>
   (\<forall>m'. sync_matrix_companies_with_personas repr m ps = Inr m' \<longrightarrow>
      length m' = length m \<and>
      (\<forall>i<length m.
         length (m' ! i) = length (m ! i) \<and>
         (m' ! i = m ! i \<or>
          (0 < i \<and>
           (\<exists>id_col companies_col.
              list_index (hd m) (JStr ID_HEADER) = Some id_col \<and>
              list_index (hd m) (JStr COMPANIES_HEADER) = Some companies_col \<and>
              max id_col companies_col < length (m ! i) \<and>
              (\<forall>j. j \<noteq> companies_col \<longrightarrow> m' ! i ! j = m ! i ! j) \<and>
              row_id_token id_col (m ! i) \<noteq> [] \<and>
              (\<exists>p\<in>set ps. dict_get p (ascii ''id'') JNull
                              = JStr (row_id_token id_col (m ! i))))))))"
proof -
  have total: "ids_hashable ps \<and> id_cells_are_str m \<longrightarrow>
      (\<exists>m'. sync_matrix_companies_with_personas repr m ps = Inr m')"
  proof (rule impI)

    assume wf: "ids_hashable ps \<and> id_cells_are_str m"
    show "\<exists>m'. sync_matrix_companies_with_personas repr m ps = Inr m'"
    proof (cases "m = [] \<or> length m < 2")
      case True
      then show ?thesis by (simp add: sync_matrix_companies_with_personas_def)
    next
      case False
      show ?thesis
      proof (cases "list_index (hd m) (JStr ID_HEADER)")
        case None
        then show ?thesis using False by (simp add: sync_matrix_companies_with_personas_def)
      next
        case (Some a)
        show ?thesis
        proof (cases "list_index (hd m) (JStr COMPANIES_HEADER)")
          case None
          then show ?thesis using False Some
            by (simp add: sync_matrix_companies_with_personas_def)
        next
          case (Some b)
          from wf obtain pc where pc: "collect_persona_companies ps Map.empty = Inr pc"
            using collect_persona_companies_total by blast
          have "\<forall>row\<in>set (tl m). \<exists>row'. sync_row repr a b pc row = Inr row'"
            using wf \<open>list_index (hd m) (JStr ID_HEADER) = Some a\<close>
            by (auto simp: id_cells_are_str_def list_all_iff intro!: sync_row_total)
          from emap_total[OF this] obtain rows where
            "emap (sync_row repr a b pc) (tl m) = Inr rows" by blast
          then show ?thesis
            using False \<open>list_index (hd m) (JStr ID_HEADER) = Some a\<close> Some pc
            by (simp add: sync_matrix_companies_with_personas_def)
        qed
      qed
    qed
  qed
  have frame: "sync_matrix_companies_with_personas repr m ps = Inr m' \<longrightarrow>
      length m' = length m \<and>
      (\<forall>i<length m.
         length (m' ! i) = length (m ! i) \<and>
         (m' ! i = m ! i \<or>
          (0 < i \<and>
           (\<exists>id_col companies_col.
              list_index (hd m) (JStr ID_HEADER) = Some id_col \<and>
              list_index (hd m) (JStr COMPANIES_HEADER) = Some companies_col \<and>
              max id_col companies_col < length (m ! i) \<and>
              (\<forall>j. j \<noteq> companies_col \<longrightarrow> m' ! i ! j = m ! i ! j) \<and>
              row_id_token id_col (m ! i) \<noteq> [] \<and>
              (\<exists>p\<in>set ps. dict_get p (ascii ''id'') JNull
                              = JStr (row_id_token id_col (m ! i)))))))" for m'
  proof (rule impI)
    assume r: "sync_matrix_companies_with_personas repr m ps = Inr m'"
    show "length m' = length m \<and>
        (\<forall>i<length m.
           length (m' ! i) = length (m ! i) \<and>
           (m' ! i = m ! i \<or>
            (0 < i \<and>
             (\<exists>id_col companies_col.
                list_index (hd m) (JStr ID_HEADER) = Some id_col \<and>
                list_index (hd m) (JStr COMPANIES_HEADER) = Some companies_col \<and>
                max id_col companies_col < length (m ! i) \<and>
                (\<forall>j. j \<noteq> companies_col \<longrightarrow> m' ! i ! j = m ! i ! j) \<and>
                row_id_token id_col (m ! i) \<noteq> [] \<and>
                (\<exists>p\<in>set ps. dict_get p (ascii ''id'') JNull
                                = JStr (row_id_token id_col (m ! i)))))))"
    proof (cases "m' = m")
      case True
      then show ?thesis by simp
    next
      case False
      with r obtain a b pc rows where
        m2: "\<not> (m = [] \<or> length m < 2)" and a: "list_index (hd m) (JStr ID_HEADER) = Some a"
        and b: "list_index (hd m) (JStr COMPANIES_HEADER) = Some b"
        and pc: "collect_persona_companies ps Map.empty = Inr pc"
        and rows: "emap (sync_row repr a b pc) (tl m) = Inr rows"
        and m': "m' = hd m # rows"
        by (auto simp: sync_matrix_companies_with_personas_def ebind_eq_Inr
            split: if_splits option.splits)
      from emap_eq_Inr[OF rows] have len: "length rows = length (tl m)"
        and step: "\<forall>i<length (tl m). sync_row repr a b pc (tl m ! i) = Inr (rows ! i)"
        by simp_all
      from m2 obtain h rest where m: "m = h # rest" by (cases m) auto
      have lenm: "length m' = length m" using m' len m by simp
      have row: "length (m' ! i) = length (m ! i) \<and>
           (m' ! i = m ! i \<or>
            (0 < i \<and>
             (\<exists>id_col companies_col.
                list_index (hd m) (JStr ID_HEADER) = Some id_col \<and>
                list_index (hd m) (JStr COMPANIES_HEADER) = Some companies_col \<and>
                max id_col companies_col < length (m ! i) \<and>
                (\<forall>j. j \<noteq> companies_col \<longrightarrow> m' ! i ! j = m ! i ! j) \<and>
                row_id_token id_col (m ! i) \<noteq> [] \<and>
                (\<exists>p\<in>set ps. dict_get p (ascii ''id'') JNull
                                = JStr (row_id_token id_col (m ! i))))))" if i: "i < length m" for i
      proof (cases i)
        case 0
        then show ?thesis using m m' by simp
      next
        case (Suc n)
        then have n: "n < length rest" using i m by simp
        have mi: "m ! i = rest ! n" and m'i: "m' ! i = rows ! n" using Suc m m' by simp_all
        from step n m have sr: "sync_row repr a b pc (rest ! n) = Inr (rows ! n)" by simp
        from sync_row_frame[OF sr] show ?thesis
        proof
          assume "rows ! n = rest ! n"
          then show ?thesis using mi m'i by simp
        next
          assume ch: "max a b < length (rest ! n) \<and> row_id_token a (rest ! n) \<noteq> [] \<and>
            (\<exists>c. pc (JStr (row_id_token a (rest ! n))) = Some c \<and> c \<noteq> JNull \<and>
                 rows ! n = (rest ! n)[b := JStr (companies_str repr c)])"
          then obtain c where c: "pc (JStr (row_id_token a (rest ! n))) = Some c"
            and upd: "rows ! n = (rest ! n)[b := JStr (companies_str repr c)]" by blast
          from collect_persona_companies_source[OF pc c]
          have src: "\<exists>p\<in>set ps. dict_get p (ascii ''id'') JNull = JStr (row_id_token a (rest ! n))"
            by simp
          have "length (m' ! i) = length (m ! i)" using mi m'i upd by simp
          moreover have "\<forall>j. j \<noteq> b \<longrightarrow> m' ! i ! j = m ! i ! j" using mi m'i upd by simp
          ultimately show ?thesis
            using Suc a b ch src mi by auto
        qed
      qed
      show ?thesis using lenm row by blast
    qed
  qed
  from total frame show ?thesis by blast
qed

text \<open>The hypotheses hold for a grid with one data row and the persona P2.\<close>

theorem resync_frame_witness:
  "ids_hashable [[(ascii ''id'', JStr (ascii ''P2'')),
                  (ascii ''companies'', JArr [JStr (ascii ''C'')])]] \<and>
   id_cells_are_str [[JStr ID_HEADER, JStr COMPANIES_HEADER],
                     [JStr (ascii ''P2/30-39''), JStr (ascii ''old'')]] \<and>
   (\<exists>m'. sync_matrix_companies_with_personas (\<lambda>v. [])
            [[JStr ID_HEADER, JStr COMPANIES_HEADER],
             [JStr (ascii ''P2/30-39''), JStr (ascii ''old'')]]
            [[(ascii ''id'', JStr (ascii ''P2'')),
              (ascii ''companies'', JArr [JStr (ascii ''C'')])]] = Inr m' \<and>
          length m' = 2 \<and> m' ! 0 = [JStr ID_HEADER, JStr COMPANIES_HEADER])"
  (is "?H1 \<and> ?H2 \<and> (\<exists>m'. ?s = Inr m' \<and> _ \<and> _)")
proof -
  have h1: ?H1 by (simp add: ids_hashable_def dict_get_def)
  have h2: ?H2 by (simp add: id_cells_are_str_def ID_HEADER_def COMPANIES_HEADER_def)
  note t = resync_frame[of "[[(ascii ''id'', JStr (ascii ''P2'')),
                  (ascii ''companies'', JArr [JStr (ascii ''C'')])]]"
        "[[JStr ID_HEADER, JStr COMPANIES_HEADER],
                     [JStr (ascii ''P2/30-39''), JStr (ascii ''old'')]]" "\<lambda>v. []"]
  from t h1 h2 obtain m' where r: "?s = Inr m'" by blast
  from t r have "length m' = 2" by simp
  moreover from t r have "m' ! 0 = [JStr ID_HEADER, JStr COMPANIES_HEADER]" by fastforce
  ultimately show ?thesis using h1 h2 r by blast
qed

text \<open>
  Claim C6 as stated fails in its last part: a persona whose id is the list \<open>["P1"]\<close>
  makes \<open>persona_companies[pid] = ...\<close> raise TypeError (a list is not hashable).
\<close>

theorem resync_unhashable_id_counterexample:
  "sync_matrix_companies_with_personas (\<lambda>v. [])
     [[JStr ID_HEADER, JStr COMPANIES_HEADER],
      [JStr (ascii ''P1/25-29''), JStr (ascii ''A'')]]
     [[(ascii ''id'', JArr [JStr (ascii ''P1'')]), (ascii ''companies'', JArr [JStr (ascii ''B'')])]]
   = Inl TypeError"
  by (simp add: sync_matrix_companies_with_personas_def ID_HEADER_def COMPANIES_HEADER_def
      dict_get_def)

section \<open>Matrix evaluation (C3)\<close>

lemma validate_matrix_iff:
  "validate_matrix m (Some n) =
     (if m \<noteq> [] \<and> length m = n + 1 \<and> (\<forall>row\<in>set (tl m). length row = length (hd m))
      then Inr True else Inl ValueError)"
  by (auto simp: validate_matrix_def list_ex_iff)

lemma all_rows_from_tl:
  "m \<noteq> [] \<Longrightarrow> (\<forall>row\<in>set m. length row = length (hd m)) = (\<forall>row\<in>set (tl m). length row = length (hd m))"
  by (cases m) auto

text \<open>
  Claim C3. A matrix returned by \<open>evaluate_matrix\<close> for \<open>P\<close> personas and \<open>A\<close> age ranges has
  \<open>P * A + 1\<close> rows, each with as many cells as the header row; and the assembled matrix
  is returned exactly when it meets both conditions: otherwise the stage raises the
  ValueError of \<open>validate_matrix\<close>.
\<close>

theorem evaluate_matrix_shape:
  "(evaluate_matrix repr generate_json personas axes age_ranges = Inr m \<longrightarrow>
      length m = length personas *
                 length (case age_ranges of None \<Rightarrow> DEFAULT_AGE_RANGES | Some a \<Rightarrow> a) + 1 \<and>
      (\<forall>row\<in>set m. length row = length (hd m))) \<and>
   (assemble_matrix repr generate_json personas axes
      (case age_ranges of None \<Rightarrow> DEFAULT_AGE_RANGES | Some a \<Rightarrow> a) = Inr m \<longrightarrow>
      evaluate_matrix repr generate_json personas axes age_ranges =
        (if length m = length personas *
                 length (case age_ranges of None \<Rightarrow> DEFAULT_AGE_RANGES | Some a \<Rightarrow> a) + 1 \<and>
            (\<forall>row\<in>set m. length row = length (hd m))
         then Inr m else Inl ValueError))"
proof -
  let ?ages = "case age_ranges of None \<Rightarrow> DEFAULT_AGE_RANGES | Some a \<Rightarrow> a"
  let ?n = "length personas * length ?ages"
  have asm: "evaluate_matrix repr generate_json personas axes age_ranges =
        (if length m' = ?n + 1 \<and> (\<forall>row\<in>set m'. length row = length (hd m'))
         then Inr m' else Inl ValueError)"
    if "assemble_matrix repr generate_json personas axes ?ages = Inr m'" for m'
  proof (cases "m' = []")
    case True
    with that show ?thesis by (simp add: evaluate_matrix_def validate_matrix_iff)
  next
    case False
    with that all_rows_from_tl[OF False] show ?thesis
      by (simp add: evaluate_matrix_def validate_matrix_iff)
  qed
  have ret: "length m = ?n + 1 \<and> (\<forall>row\<in>set m. length row = length (hd m))"
    if r: "evaluate_matrix repr generate_json personas axes age_ranges = Inr m"
  proof -
    from r obtain m' where a: "assemble_matrix repr generate_json personas axes ?ages = Inr m'"
      by (auto simp: evaluate_matrix_def ebind_eq_Inr)
    from asm[OF a] r have eq: "m' = m"
      and sh: "length m' = ?n + 1 \<and> (\<forall>row\<in>set m'. length row = length (hd m'))"
      by (auto split: if_splits)
    from sh show ?thesis unfolding eq .
  qed
  from asm[of m] ret show ?thesis by blast
qed

text \<open>
  Two personas and a service that answers one row per persona: with one age range the
  matrix of three rows is returned; with the three default age ranges the same answers
  fail the validation.
\<close>

theorem evaluate_matrix_shape_witness:
  "evaluate_matrix (\<lambda>v. [])
     (\<lambda>idx persona. Inr (JObj [(ascii ''matrix'', JArr
        [JObj [(ascii ''persona_id'', dict_get persona (ascii ''id'') JNull),
               (ascii ''age_range'', JStr (ascii ''25-29''))]])]))
     [[(ascii ''id'', JStr (ascii ''P1''))], [(ascii ''id'', JStr (ascii ''P2''))]]
     []
     (Some [ascii ''25-29''])
   = Inr [[JStr ID_HEADER, JStr INDUSTRY_HEADER, JStr JOB_TYPE_HEADER, JStr COMPANIES_HEADER],
          [JStr (ascii ''P1/25-29''), JStr [], JStr [], JStr []],
          [JStr (ascii ''P2/25-29''), JStr [], JStr [], JStr []]] \<and>
   length [[JStr ID_HEADER, JStr INDUSTRY_HEADER, JStr JOB_TYPE_HEADER, JStr COMPANIES_HEADER],
          [JStr (ascii ''P1/25-29''), JStr [], JStr [], JStr []],
          [JStr (ascii ''P2/25-29''), JStr [], JStr [], JStr []]] = 2 * 1 + 1 \<and>
   evaluate_matrix (\<lambda>v. [])
     (\<lambda>idx persona. Inr (JObj [(ascii ''matrix'', JArr
        [JObj [(ascii ''persona_id'', dict_get persona (ascii ''id'') JNull),
               (ascii ''age_range'', JStr (ascii ''25-29''))]])]))
     [[(ascii ''id'', JStr (ascii ''P1''))], [(ascii ''id'', JStr (ascii ''P2''))]]
     []
     None
   = Inl ValueError"
  (is "?run = Inr ?m \<and> ?len \<and> ?run3 = Inl ValueError")
proof -
  have h: "?run = Inr ?m"
    by (simp add: evaluate_matrix_def assemble_matrix_def convert_to_2d_list_def convert_row_def
        companies_cell_def validate_matrix_def dict_get_def py_str_def ascii_def)
  have a: "assemble_matrix (\<lambda>v. [])
     (\<lambda>idx persona. Inr (JObj [(ascii ''matrix'', JArr
        [JObj [(ascii ''persona_id'', dict_get persona (ascii ''id'') JNull),
               (ascii ''age_range'', JStr (ascii ''25-29''))]])]))
     [[(ascii ''id'', JStr (ascii ''P1''))], [(ascii ''id'', JStr (ascii ''P2''))]]
     [] (case None of None \<Rightarrow> DEFAULT_AGE_RANGES | Some a \<Rightarrow> a) = Inr ?m"
    by (simp add: assemble_matrix_def convert_to_2d_list_def convert_row_def
        companies_cell_def dict_get_def py_str_def ascii_def)
  note t1 = evaluate_matrix_shape[THEN conjunct1, rule_format, OF h]
  note t2 = evaluate_matrix_shape[THEN conjunct2, rule_format, OF a]
  from t1 have l: ?len by simp
  from t2 have "?run3 = Inl ValueError" by (simp add: DEFAULT_AGE_RANGES_def)
  with h l show ?thesis by simp
qed

section \<open>Matrix assembly (C10)\<close>

lemma emap_map:
  "(\<forall>x\<in>set xs. f x = Inr (g x)) \<Longrightarrow> emap f xs = Inr (map g xs)"
  by (induction xs) auto

lemma column_name_label:
  "axis_has_keys axis \<Longrightarrow> column_name repr axis = Inr (axis_label repr axis)"
  by (auto simp: axis_has_keys_def column_name_def axis_label_def dict_item_def dict_get_def)

lemma str_items_typed:
  "list_all is_JStr cs \<Longrightarrow> str_items cs = Inr (map str_of cs)"
proof (induction cs)
  case Nil
  then show ?case by simp
next
  case (Cons c cs)
  then show ?case by (cases c) auto
qed

lemma convert_row_typed:
  assumes "list_all axis_has_keys axes" and "typed_row_record axes r"
  shows "convert_row repr axes r = Inr (expected_row repr axes r)"
proof -
  from assms(2) obtain d where r: "r = JObj d"
    by (auto simp: typed_row_record_def split: jval.splits)
  have comp: "companies_cell (dict_get d (ascii ''companies'') (JStr []))
                = Inr (rendered_companies (map_of d (ascii ''companies'')))"
    using assms(2) unfolding r typed_row_record_def
    by (auto simp: companies_cell_def rendered_companies_def dict_get_def str_items_typed
        split: option.splits jval.splits)
  have cells: "emap (evaluation_cell repr (dict_get d (ascii ''evaluations'') (JObj []))) axes
                = Inr (map (\<lambda>axis. or_empty (evaluation_of r (axis_label repr axis))) axes)"
  proof (cases "axes = []")
    case True
    then show ?thesis by simp
  next
    case False
    with assms(2) obtain ev where ev: "dict_get d (ascii ''evaluations'') (JObj []) = JObj ev"
      unfolding r typed_row_record_def
      by (cases "dict_get d (ascii ''evaluations'') (JObj [])") auto
    have evof: "evaluation_of r name = map_of ev name" for name
      using ev unfolding r
      by (auto simp: evaluation_of_def record_field_def dict_get_def split: option.splits)
    show ?thesis
    proof (rule emap_map, rule ballI)
      fix axis assume "axis \<in> set axes"
      with assms(1) have "axis_has_keys axis" by (simp add: list_all_iff)
      then show "evaluation_cell repr (dict_get d (ascii ''evaluations'') (JObj [])) axis
                 = Inr (or_empty (evaluation_of r (axis_label repr axis)))"
        unfolding evaluation_cell_def ev evof
        by (simp add: column_name_label) (simp add: dict_get_def or_empty_def)
    qed
  qed
  show ?thesis
    unfolding convert_row_def r
    using comp cells
    by (simp add: expected_row_def record_field_def or_empty_def dict_get_def r
        split: option.splits)
qed


text \<open>
  Claim C10, as amended. For axes that carry a category and an item and row records that
  are typed (a dict whose companies, when a list, holds strings and whose evaluations, when
  read, is a dict), the assembly returns the header and one row per record; the header and
  every row have \<open>4 + length axes\<close> cells; the first cell is the id and the age range
  joined by \<open>/\<close>, an absent one being the empty string; and an absent industry, job type
  or companies field, and an axis column whose label is absent from the evaluations, is
  the empty string.
\<close>

theorem convert_to_2d_list_default_fills:
  assumes "list_all axis_has_keys axes" and "list_all (typed_row_record axes) matrix_data"
  shows "convert_to_2d_list repr matrix_data personas axes age_ranges
           = Inr (expected_header repr axes # map (expected_row repr axes) matrix_data) \<and>
         length (expected_header repr axes) = 4 + length axes \<and>
         (\<forall>r\<in>set matrix_data.
            length (expected_row repr axes r) = 4 + length axes \<and>
            expected_row repr axes r ! 0 =
              JStr (py_str repr (or_empty (record_field r (ascii ''persona_id''))) @ ascii ''/'' @
                    py_str repr (or_empty (record_field r (ascii ''age_range'')))) \<and>
            py_str repr (or_empty None) = [] \<and>
            (record_field r (ascii ''industry'') = None \<longrightarrow> expected_row repr axes r ! 1 = JStr []) \<and>
            (record_field r (ascii ''job_type'') = None \<longrightarrow> expected_row repr axes r ! 2 = JStr []) \<and>
            (record_field r (ascii ''companies'') = None \<longrightarrow> expected_row repr axes r ! 3 = JStr []) \<and>
            (\<forall>k<length axes.
               evaluation_of r (axis_label repr (axes ! k)) = None \<longrightarrow>
               expected_row repr axes r ! (4 + k) = JStr []))"
proof -
  have names: "emap (column_name repr) axes = Inr (map (axis_label repr) axes)"
    using assms(1) by (intro emap_map) (auto simp: list_all_iff column_name_label)
  have rows: "emap (convert_row repr axes) matrix_data = Inr (map (expected_row repr axes) matrix_data)"
    using assms by (intro emap_map) (auto simp: list_all_iff convert_row_typed)
  have run: "convert_to_2d_list repr matrix_data personas axes age_ranges
           = Inr (expected_header repr axes # map (expected_row repr axes) matrix_data)"
    by (simp add: convert_to_2d_list_def names rows expected_header_def comp_def)
  have hd: "length (expected_header repr axes) = 4 + length axes"
    by (simp add: expected_header_def)
  have cells: "length (expected_row repr axes r) = 4 + length axes \<and>
            expected_row repr axes r ! 0 =
              JStr (py_str repr (or_empty (record_field r (ascii ''persona_id''))) @ ascii ''/'' @
                    py_str repr (or_empty (record_field r (ascii ''age_range'')))) \<and>
            py_str repr (or_empty None) = [] \<and>
            (record_field r (ascii ''industry'') = None \<longrightarrow> expected_row repr axes r ! 1 = JStr []) \<and>
            (record_field r (ascii ''job_type'') = None \<longrightarrow> expected_row repr axes r ! 2 = JStr []) \<and>
            (record_field r (ascii ''companies'') = None \<longrightarrow> expected_row repr axes r ! 3 = JStr []) \<and>
            (\<forall>k<length axes.
               evaluation_of r (axis_label repr (axes ! k)) = None \<longrightarrow>
               expected_row repr axes r ! (4 + k) = JStr [])" for r
    by (simp add: expected_row_def or_empty_def rendered_companies_def py_str_def nth_append
        numeral_eq_Suc)
  from run hd cells show ?thesis by blast
qed

text \<open>Two typed records, one lacking every identity field but the companies.\<close>

theorem convert_to_2d_list_default_fills_witness:
  "list_all axis_has_keys
     [[(ascii ''category'', JStr (ascii ''c'')), (ascii ''item'', JStr (ascii ''i''))]] \<and>
   list_all (typed_row_record
     [[(ascii ''category'', JStr (ascii ''c'')), (ascii ''item'', JStr (ascii ''i''))]])
     [JObj [(ascii ''persona_id'', JStr (ascii ''P1'')), (ascii ''age_range'', JStr (ascii ''25-29''))],
      JObj [(ascii ''companies'', JArr [JStr (ascii ''A''), JStr (ascii ''B'')]),
            (ascii ''evaluations'', JObj [(ascii ''c - i'', JStr (ascii ''o''))])]] \<and>
   convert_to_2d_list (\<lambda>v. [])
     [JObj [(ascii ''persona_id'', JStr (ascii ''P1'')), (ascii ''age_range'', JStr (ascii ''25-29''))],
      JObj [(ascii ''companies'', JArr [JStr (ascii ''A''), JStr (ascii ''B'')]),
            (ascii ''evaluations'', JObj [(ascii ''c - i'', JStr (ascii ''o''))])]]
     []
     [[(ascii ''category'', JStr (ascii ''c'')), (ascii ''item'', JStr (ascii ''i''))]]
     []
   = Inr [[JStr ID_HEADER, JStr INDUSTRY_HEADER, JStr JOB_TYPE_HEADER, JStr COMPANIES_HEADER,
           JStr (ascii ''c - i'')],
          [JStr (ascii ''P1/25-29''), JStr [], JStr [], JStr [], JStr []],
          [JStr (ascii ''/''), JStr [], JStr [], JStr (ascii ''A'' @ COMPANY_SEP @ ascii ''B''),
           JStr (ascii ''o'')]]"
  (is "?A \<and> ?B \<and> ?run = Inr ?res")
proof -
  have a: ?A by (simp add: axis_has_keys_def)
  have b: ?B by (simp add: typed_row_record_def dict_get_def)
  from convert_to_2d_list_default_fills[OF a b, of "\<lambda>v. []" "[]" "[]"]
  have "?run = Inr ?res"
    by (simp add: expected_header_def expected_row_def axis_label_def py_str_def dict_get_def
        record_field_def or_empty_def evaluation_of_def rendered_companies_def ascii_def)
  with a b show ?thesis by simp
qed

text \<open>
  Claim C10 as stated fails: the assembly is not total on row records. A record whose
  \<open>evaluations\<close> is \<open>null\<close> makes \<open>evaluations.get\<close> raise AttributeError.
\<close>

theorem convert_to_2d_list_null_evaluations_counterexample:
  "convert_to_2d_list (\<lambda>v. [])
     [JObj [(ascii ''persona_id'', JStr (ascii ''P1'')), (ascii ''evaluations'', JNull)]]
     []
     [[(ascii ''category'', JStr (ascii ''c'')), (ascii ''item'', JStr (ascii ''i''))]]
     []
   = Inl AttributeError"
  by (simp add: convert_to_2d_list_def convert_row_def column_name_def dict_item_def
      dict_get_def companies_cell_def evaluation_cell_def)

section \<open>Retry (C7)\<close>

lemma retry_attempts_all_fail:
  assumes "a < nat n" and "\<forall>k. a \<le> k \<and> k < nat n \<longrightarrow> generate k = Inl (e k)"
  shows "snd (retry_attempts generate n [a..<nat n]) =
           (if is_rate_limit (e (nat n - 1))
            then Inl (Exn (ascii ''Exception'') RATE_LIMIT_ABORT_MSG)
            else Inl (e (nat n - 1)))"
  using assms
proof (induction "nat n - a" arbitrary: a)
  case 0
  then show ?case by simp
next
  case (Suc d)
  have up: "[a..<nat n] = a # [Suc a..<nat n]" using Suc.prems(1) by (simp add: upt_conv_Cons)
  have ga: "generate a = Inl (e a)" using Suc.prems by simp
  show ?case
  proof (cases "int a < n - 1")
    case True
    then have lt: "Suc a < nat n" by linarith
    have d: "d = nat n - Suc a" using Suc.hyps(2) by simp
    have "snd (retry_attempts generate n [Suc a..<nat n]) =
           (if is_rate_limit (e (nat n - 1))
            then Inl (Exn (ascii ''Exception'') RATE_LIMIT_ABORT_MSG)
            else Inl (e (nat n - 1)))"
      using Suc.hyps(1)[OF d lt] Suc.prems(2) by simp
    then show ?thesis unfolding up using ga True by simp
  next
    case False
    with Suc.prems(1) have "a = nat n - 1" by linarith
    then show ?thesis unfolding up using ga False by simp
  qed
qed

lemma abort_not_rate_limit:
  "\<not> is_rate_limit (Exn (ascii ''Exception'') RATE_LIMIT_ABORT_MSG)"
  by (simp add: is_rate_limit_def RATE_LIMIT_ABORT_MSG_def py_lower_def lower_char_def ascii_def)

lemma upt_0_3: "[0..<3] = [0, 1, 2]"
  by (simp add: numeral_3_eq_3 upt_Suc)

text \<open>
  Claim C7, as amended. When all \<open>n\<close> attempts fail (\<open>n\<close> at least 1), the exception raised
  is the last failure itself when that failure is not a rate-limit failure; when it is
  one, the exception raised is a new \<open>Exception\<close> with a fixed message, which is never the
  last failure.
\<close>

theorem retry_exhausted_raises:
  assumes "1 \<le> n" and "\<forall>k<nat n. generate k = Inl (e k)"
  shows "snd (generate_with_retry generate (Some n)) =
           (if is_rate_limit (e (nat n - 1))
            then Inl (Exn (ascii ''Exception'') RATE_LIMIT_ABORT_MSG)
            else Inl (e (nat n - 1))) \<and>
         (is_rate_limit (e (nat n - 1)) \<longrightarrow>
            Exn (ascii ''Exception'') RATE_LIMIT_ABORT_MSG \<noteq> e (nat n - 1))"
proof -
  have "0 < nat n" using assms(1) by simp
  from retry_attempts_all_fail[OF this, of generate e] assms(2)
  have "snd (retry_attempts generate n [0..<nat n]) =
           (if is_rate_limit (e (nat n - 1))
            then Inl (Exn (ascii ''Exception'') RATE_LIMIT_ABORT_MSG)
            else Inl (e (nat n - 1)))" by simp
  moreover have "is_rate_limit (e (nat n - 1)) \<longrightarrow>
            Exn (ascii ''Exception'') RATE_LIMIT_ABORT_MSG \<noteq> e (nat n - 1)"
    using abort_not_rate_limit by auto
  ultimately show ?thesis by (simp add: generate_with_retry_def)
qed

text \<open>Three attempts that time out: the last failure is raised, after two fixed delays.\<close>

theorem retry_exhausted_raises_witness:
  "(1::int) \<le> 3 \<and>
   generate_with_retry (\<lambda>k. Inl (Exn (ascii ''TimeoutError'') (ascii ''timed out''))) (Some 3)
     = ([2, 2], Inl (Exn (ascii ''TimeoutError'') (ascii ''timed out'')))"
proof -
  have s: "fst (generate_with_retry (\<lambda>k. Inl (Exn (ascii ''TimeoutError'') (ascii ''timed out''))) (Some 3))
            = [2, 2]"
    by (simp add: generate_with_retry_def is_rate_limit_def py_lower_def
      lower_char_def ascii_def upt_0_3 RETRY_DELAY_def)
  have nr: "\<not> is_rate_limit (Exn (ascii ''TimeoutError'') (ascii ''timed out''))"
    by (simp add: is_rate_limit_def py_lower_def lower_char_def ascii_def)
  have "snd (generate_with_retry (\<lambda>k. Inl (Exn (ascii ''TimeoutError'') (ascii ''timed out''))) (Some 3))
          = Inl (Exn (ascii ''TimeoutError'') (ascii ''timed out''))"
    using retry_exhausted_raises[of 3 "\<lambda>k. Inl (Exn (ascii ''TimeoutError'') (ascii ''timed out''))"
        "\<lambda>k. Exn (ascii ''TimeoutError'') (ascii ''timed out'')"] nr
    by simp
  with s show ?thesis by (simp add: prod_eq_iff)
qed

text \<open>
  Claim C7 as stated fails for rate-limit failures: after three of them (delays 1 and 2)
  the function raises \<open>Exception(RATE_LIMIT_ABORT_MSG)\<close>, not the failure of the service.
\<close>

theorem retry_rate_limit_counterexample:
  "generate_with_retry (\<lambda>k. Inl (Exn (ascii ''RateLimitError'') (ascii ''Rate_Limit exceeded''))) None
     = ([1, 2], Inl (Exn (ascii ''Exception'') RATE_LIMIT_ABORT_MSG)) \<and>
   Exn (ascii ''Exception'') RATE_LIMIT_ABORT_MSG
     \<noteq> Exn (ascii ''RateLimitError'') (ascii ''Rate_Limit exceeded'')"
  by (simp add: generate_with_retry_def MAX_RETRIES_def is_rate_limit_def py_lower_def
      lower_char_def ascii_def upt_0_3 RATE_LIMIT_ABORT_MSG_def)

section \<open>Self review (C8)\<close>

text \<open>
  Claim C8. \<open>review\<close> always returns a result. Whenever the body of its \<open>try\<close> raises, and
  in particular when the call of the service or the parsing of its output raises, the
  result is the default one, whose \<open>has_issues\<close> is false (so the caller skips
  \<open>apply_fixes\<close> and goes on to the next stage), whose \<open>issues\<close> is the empty list and
  whose \<open>confidence_score\<close> is 0.5.
\<close>

theorem review_never_raises:
  "(\<exists>r. review generate_json matrix job_description personas axes = Inr r) \<and>
   (review_try generate_json matrix job_description = Inl e \<longrightarrow>
      review generate_json matrix job_description personas axes = Inr DEFAULT_REVIEW) \<and>
   (matrix_to_markdown matrix = Inr md \<and> generate_json job_description md = Inl e \<longrightarrow>
      review generate_json matrix job_description personas axes = Inr DEFAULT_REVIEW) \<and>
   obj_get DEFAULT_REVIEW (ascii ''has_issues'') JNull = Inr (JBool False) \<and>
   obj_get DEFAULT_REVIEW (ascii ''issues'') JNull = Inr (JArr []) \<and>
   obj_get DEFAULT_REVIEW (ascii ''confidence_score'') JNull = Inr (JFloat (1 / 2)) \<and>
   \<not> truthy (JBool False)"
proof -
  have a: "\<exists>r. review generate_json matrix job_description personas axes = Inr r"
    by (cases "review_try generate_json matrix job_description") (simp_all add: review_def)
  have b: "review_try generate_json matrix job_description = Inl e \<longrightarrow>
      review generate_json matrix job_description personas axes = Inr DEFAULT_REVIEW"
    by (simp add: review_def)
  have c: "matrix_to_markdown matrix = Inr md \<and> generate_json job_description md = Inl e \<longrightarrow>
      review generate_json matrix job_description personas axes = Inr DEFAULT_REVIEW"
    by (simp add: review_def review_try_def)
  have d: "obj_get DEFAULT_REVIEW (ascii ''has_issues'') JNull = Inr (JBool False) \<and>
   obj_get DEFAULT_REVIEW (ascii ''issues'') JNull = Inr (JArr []) \<and>
   obj_get DEFAULT_REVIEW (ascii ''confidence_score'') JNull = Inr (JFloat (1 / 2))"
    by (simp add: DEFAULT_REVIEW_def dict_get_def)
  from a b c d show ?thesis by simp
qed

text \<open>
  A transport error of the call gives the default result, and so does an output whose
  \<open>issues\<close> is \<open>null\<close> (the log line \<open>len(issues)\<close> raises TypeError).
\<close>

theorem review_never_raises_witness:
  "matrix_to_markdown [[JStr (ascii ''a''), JStr (ascii ''b'')], [JStr (ascii ''c''), JStr (ascii ''d'')]]
     = Inr (ascii ''| a | b |'' @ [10] @ ascii ''| --- | --- |'' @ [10] @ ascii ''| c | d |'') \<and>
   review (\<lambda>jd md. Inl (Raised (Exn (ascii ''APIConnectionError'') (ascii ''Connection error.''))))
     [[JStr (ascii ''a''), JStr (ascii ''b'')], [JStr (ascii ''c''), JStr (ascii ''d'')]]
     (ascii ''job'') [] []
   = Inr DEFAULT_REVIEW \<and>
   review (\<lambda>jd md. Inr (JObj [(ascii ''has_issues'', JBool True), (ascii ''issues'', JNull)]))
     [[JStr (ascii ''a''), JStr (ascii ''b'')], [JStr (ascii ''c''), JStr (ascii ''d'')]]
     (ascii ''job'') [] []
   = Inr DEFAULT_REVIEW"
  (is "?md \<and> ?r1 \<and> ?r2")
proof -
  have md: ?md
    by (simp add: matrix_to_markdown_def markdown_line_def ascii_def numeral_2_eq_2)
  have r1: ?r1
    using review_never_raises[where
        generate_json = "\<lambda>jd md. Inl (Raised (Exn (ascii ''APIConnectionError'') (ascii ''Connection error.'')))"
        and matrix = "[[JStr (ascii ''a''), JStr (ascii ''b'')], [JStr (ascii ''c''), JStr (ascii ''d'')]]"
        and job_description = "ascii ''job''" and personas = "[]" and axes = "[]"
        and md = "ascii ''| a | b |'' @ [10] @ ascii ''| --- | --- |'' @ [10] @ ascii ''| c | d |''"
        and e = "Raised (Exn (ascii ''APIConnectionError'') (ascii ''Connection error.''))"]
      md
    by simp
  have t: "review_try (\<lambda>jd md. Inr (JObj [(ascii ''has_issues'', JBool True), (ascii ''issues'', JNull)]))
     [[JStr (ascii ''a''), JStr (ascii ''b'')], [JStr (ascii ''c''), JStr (ascii ''d'')]]
     (ascii ''job'') = Inl TypeError"
    by (simp add: review_try_def md dict_get_def)
  have r2: ?r2
    using review_never_raises[where
        generate_json = "\<lambda>jd md. Inr (JObj [(ascii ''has_issues'', JBool True), (ascii ''issues'', JNull)])"
        and matrix = "[[JStr (ascii ''a''), JStr (ascii ''b'')], [JStr (ascii ''c''), JStr (ascii ''d'')]]"
        and job_description = "ascii ''job''" and personas = "[]" and axes = "[]"
        and e = TypeError]
      t
    by simp
  from md r1 r2 show ?thesis by simp
qed

section \<open>Ids of added personas (C9)\<close>

lemma assign_ids_ids:
  assumes "assign_ids n items = Inr ds"
  shows "length ds = length items \<and>
         (\<forall>i<length ds. persona_id (ds ! i) = Some (JStr (persona_label (n + i))))"
  using assms
proof (induction n items arbitrary: ds rule: assign_ids.induct)
  case (1 n)
  then show ?case by simp
next
  case (2 n persona rest)
  from "2.prems" obtain ds' where r: "assign_ids (Suc n) rest = Inr ds'"
    and ds: "ds = AList.update (ascii ''id'') (JStr (persona_label n)) persona # ds'"
    by (auto simp: ebind_eq_Inr)
  from "2.IH"[OF r] have len: "length ds' = length rest"
    and ids: "\<forall>i<length ds'. persona_id (ds' ! i) = Some (JStr (persona_label (Suc n + i)))"
    by simp_all
  have "persona_id (ds ! i) = Some (JStr (persona_label (n + i)))" if "i < length ds" for i
  proof (cases i)
    case 0
    then show ?thesis by (simp add: ds persona_id_def update_conv')
  next
    case (Suc k)
    with that ids ds show ?thesis by simp
  qed
  then show ?case using len ds by simp
qed simp_all

lemma py_str_nat_digit: "n < 10 \<Longrightarrow> py_str_nat n = [48 + n]"
  by (simp add: py_str_nat.simps)

lemma parse_nat_snoc:
  "48 \<le> d \<Longrightarrow> d \<le> 57 \<Longrightarrow>
   parse_nat acc (cs @ [d]) = map_option (\<lambda>m. 10 * m + (d - 48)) (parse_nat acc cs)"
  by (induction cs arbitrary: acc) auto

lemma parse_nat_py_str_nat: "parse_nat 0 (py_str_nat n) = Some n"
proof (induction n rule: py_str_nat.induct)
  case (1 n)
  show ?case
  proof (cases "n < 10")
    case True
    then show ?thesis by (simp add: py_str_nat.simps)
  next
    case False
    have d: "48 \<le> 48 + n mod 10" "48 + n mod 10 \<le> 57" by simp_all
    have "py_str_nat n = py_str_nat (n div 10) @ [48 + n mod 10]"
      using False by (simp add: py_str_nat.simps)
    then show ?thesis using 1[OF False] parse_nat_snoc[OF d] by simp
  qed
qed

lemma persona_label_inj: "(persona_label a = persona_label b) = (a = b)"
proof
  assume "persona_label a = persona_label b"
  then have "parse_nat 0 (py_str_nat a) = parse_nat 0 (py_str_nat b)"
    by (simp add: persona_label_def)
  then show "a = b" by (simp add: parse_nat_py_str_nat)
qed simp

text \<open>
  Claim C9, as amended. When the additive re-run returns, it returns as many personas as
  were asked for, and persona \<open>i\<close> of them (from 0) has the id \<open>P\<close> followed by the number
  of existing personas plus \<open>1 + i\<close>. When at least one persona is returned, these ids
  continue the maximum id number of the existing personas exactly when that maximum equals
  the number of existing personas.
\<close>

theorem additional_personas_ids:
  assumes "generate_additional_personas generate_json existing_personas additional_count
             = Inr new_personas"
  shows "\<exists>ds. py_iter new_personas = Inr (map JObj ds) \<and>
           int (length ds) = additional_count \<and>
           (\<forall>i<length ds.
              persona_id (ds ! i)
                = Some (JStr (persona_label (length existing_personas + 1 + i)))) \<and>
           (ds \<noteq> [] \<longrightarrow>
              ((\<forall>i<length ds.
                  persona_id (ds ! i)
                    = Some (JStr (persona_label (max_id_number existing_personas + 1 + i))))
               \<longleftrightarrow> max_id_number existing_personas = length existing_personas))"
proof -
  from assms obtain result np items ds ok where
    np: "obj_get result (ascii ''personas'') (JArr []) = Inr np"
    and it: "py_iter np = Inr items"
    and ids: "assign_ids (length existing_personas + 1) items = Inr ds"
    and val: "validate_personas ds (Some additional_count) = Inr ok"
    and res: "new_personas = (case np of JArr xs \<Rightarrow> JArr (map JObj ds) | _ \<Rightarrow> np)"
    by (auto simp: generate_additional_personas_def ebind_eq_Inr)
  from assign_ids_ids[OF ids] have len: "length ds = length items"
    and lab: "\<forall>i<length ds. persona_id (ds ! i)
                = Some (JStr (persona_label (length existing_personas + 1 + i)))"
    by simp_all
  from val have cnt: "int (length ds) = additional_count"
    by (auto simp: validate_personas_def split: if_splits)
  have iter: "py_iter new_personas = Inr (map JObj ds)"
  proof (cases np)
    case (JArr xs)
    then show ?thesis using res by simp
  next
    case (JStr s)
    with it have "items = map (\<lambda>c. JStr [c]) s" by simp
    with ids have "s = []" by (cases s) auto
    with JStr it ids res show ?thesis by auto
  next
    case (JObj d)
    with it have "items = map (\<lambda>kv. JStr (fst kv)) d" by simp
    with ids have "d = []" by (cases d) auto
    with JObj it ids res show ?thesis by auto
  qed (use it in auto)
  have cont: "(\<forall>i<length ds.
                  persona_id (ds ! i)
                    = Some (JStr (persona_label (max_id_number existing_personas + 1 + i))))
               \<longleftrightarrow> max_id_number existing_personas = length existing_personas"
    if ne: "ds \<noteq> []"
  proof
    assume a: "\<forall>i<length ds. persona_id (ds ! i)
                 = Some (JStr (persona_label (max_id_number existing_personas + 1 + i)))"
    from ne have z: "0 < length ds" by simp
    from a z have "persona_id (ds ! 0)
                 = Some (JStr (persona_label (max_id_number existing_personas + 1 + 0)))" by blast
    moreover from lab z have "persona_id (ds ! 0)
                 = Some (JStr (persona_label (length existing_personas + 1 + 0)))" by blast
    ultimately have "persona_label (max_id_number existing_personas + 1 + 0)
                       = persona_label (length existing_personas + 1 + 0)" by simp
    then show "max_id_number existing_personas = length existing_personas"
      by (simp add: persona_label_inj)
  next
    assume "max_id_number existing_personas = length existing_personas"
    with lab show "\<forall>i<length ds. persona_id (ds ! i)
                 = Some (JStr (persona_label (max_id_number existing_personas + 1 + i)))" by simp
  qed
  from iter cnt lab cont show ?thesis by blast
qed


text \<open>
  Two personas added to P1 and P2, whose maximum id number is 2, receive P3 and P4.
\<close>

theorem additional_personas_ids_witness:
  "generate_additional_personas
     (Inr (JObj [(ascii ''personas'', JArr
        [JObj [(ascii ''industry'', JStr (ascii ''X'')), (ascii ''job_type'', JStr (ascii ''Y'')),
               (ascii ''companies'', JArr [JStr (ascii ''A''), JStr (ascii ''B''), JStr (ascii ''C'')])],
         JObj [(ascii ''id'', JStr (ascii ''P1'')),
               (ascii ''industry'', JStr (ascii ''V'')), (ascii ''job_type'', JStr (ascii ''W'')),
               (ascii ''companies'', JArr [JStr (ascii ''A''), JStr (ascii ''B''), JStr (ascii ''C'')])]])]))
     [[(ascii ''id'', JStr (ascii ''P1'')), (ascii ''industry'', JStr (ascii ''I'')), (ascii ''job_type'', JStr (ascii ''J''))],
      [(ascii ''id'', JStr (ascii ''P2'')), (ascii ''industry'', JStr (ascii ''K'')), (ascii ''job_type'', JStr (ascii ''L''))]]
     2
   = Inr (JArr
        [JObj [(ascii ''industry'', JStr (ascii ''X'')), (ascii ''job_type'', JStr (ascii ''Y'')),
               (ascii ''companies'', JArr [JStr (ascii ''A''), JStr (ascii ''B''), JStr (ascii ''C'')]),
               (ascii ''id'', JStr (ascii ''P3''))],
         JObj [(ascii ''id'', JStr (ascii ''P4'')),
               (ascii ''industry'', JStr (ascii ''V'')), (ascii ''job_type'', JStr (ascii ''W'')),
               (ascii ''companies'', JArr [JStr (ascii ''A''), JStr (ascii ''B''), JStr (ascii ''C'')])]]) \<and>
   (\<exists>ds. py_iter (JArr
        [JObj [(ascii ''industry'', JStr (ascii ''X'')), (ascii ''job_type'', JStr (ascii ''Y'')),
               (ascii ''companies'', JArr [JStr (ascii ''A''), JStr (ascii ''B''), JStr (ascii ''C'')]),
               (ascii ''id'', JStr (ascii ''P3''))],
         JObj [(ascii ''id'', JStr (ascii ''P4'')),
               (ascii ''industry'', JStr (ascii ''V'')), (ascii ''job_type'', JStr (ascii ''W'')),
               (ascii ''companies'', JArr [JStr (ascii ''A''), JStr (ascii ''B''), JStr (ascii ''C'')])]])
          = Inr (map JObj ds) \<and>
        int (length ds) = 2 \<and>
        persona_id (ds ! 1) = Some (JStr (persona_label 4))) \<and>
   max_id_number
     [[(ascii ''id'', JStr (ascii ''P1'')), (ascii ''industry'', JStr (ascii ''I'')), (ascii ''job_type'', JStr (ascii ''J''))],
      [(ascii ''id'', JStr (ascii ''P2'')), (ascii ''industry'', JStr (ascii ''K'')), (ascii ''job_type'', JStr (ascii ''L''))]]
   = 2"
  (is "generate_additional_personas ?g ?old 2 = Inr ?res \<and> ?concl \<and> ?mx")
proof -
  have h: "generate_additional_personas ?g ?old 2 = Inr ?res"
    by (simp add: generate_additional_personas_def dict_item_def dict_get_def validate_personas_def
        validate_persona_def persona_label_def py_str_nat_digit ascii_def)
  have mx: ?mx
    by (simp add: max_id_number_def id_number_def persona_id_def ascii_def)
  from additional_personas_ids[OF h] obtain ds where
    d1: "py_iter ?res = Inr (map JObj ds)" and d2: "int (length ds) = 2" and
    d4: "ds \<noteq> [] \<longrightarrow>
           ((\<forall>i<length ds. persona_id (ds ! i)
                 = Some (JStr (persona_label (max_id_number ?old + 1 + i))))
            \<longleftrightarrow> max_id_number ?old = length ?old)"
    by blast
  from d2 have ne: "ds \<noteq> []" and l: "1 < length ds" by auto
  have "max_id_number ?old = length ?old" using mx by simp
  with d4 ne have "\<forall>i<length ds. persona_id (ds ! i)
                 = Some (JStr (persona_label (max_id_number ?old + 1 + i)))" by blast
  with l have "persona_id (ds ! 1) = Some (JStr (persona_label (max_id_number ?old + 1 + 1)))"
    by blast
  moreover have "max_id_number ?old + 1 + 1 = 4" using mx by simp
  ultimately have "persona_id (ds ! 1) = Some (JStr (persona_label 4))" by (simp only:)
  with d1 d2 have ?concl by blast
  with h mx show ?thesis by blast
qed

text \<open>
  Claim C9 as stated fails: with the existing personas P1 and P3 the maximum id number is
  3, and the added persona receives P3 again, not P4, because the ids continue the count
  of the existing personas.
\<close>

theorem additional_personas_gap_counterexample:
  "generate_additional_personas
     (Inr (JObj [(ascii ''personas'', JArr
        [JObj [(ascii ''industry'', JStr (ascii ''X'')), (ascii ''job_type'', JStr (ascii ''Y'')),
               (ascii ''companies'', JArr [JStr (ascii ''A''), JStr (ascii ''B''), JStr (ascii ''C'')])]])]))
     [[(ascii ''id'', JStr (ascii ''P1'')), (ascii ''industry'', JStr (ascii ''I'')), (ascii ''job_type'', JStr (ascii ''J''))],
      [(ascii ''id'', JStr (ascii ''P3'')), (ascii ''industry'', JStr (ascii ''K'')), (ascii ''job_type'', JStr (ascii ''L''))]]
     1
   = Inr (JArr
        [JObj [(ascii ''industry'', JStr (ascii ''X'')), (ascii ''job_type'', JStr (ascii ''Y'')),
               (ascii ''companies'', JArr [JStr (ascii ''A''), JStr (ascii ''B''), JStr (ascii ''C'')]),
               (ascii ''id'', JStr (ascii ''P3''))]]) \<and>
   max_id_number
     [[(ascii ''id'', JStr (ascii ''P1'')), (ascii ''industry'', JStr (ascii ''I'')), (ascii ''job_type'', JStr (ascii ''J''))],
      [(ascii ''id'', JStr (ascii ''P3'')), (ascii ''industry'', JStr (ascii ''K'')), (ascii ''job_type'', JStr (ascii ''L''))]]
   = 3 \<and>
   persona_label (3 + 1) = ascii ''P4'' \<and>
   ascii ''P3'' \<noteq> ascii ''P4''"
  by (simp add: generate_additional_personas_def dict_item_def dict_get_def validate_personas_def
      validate_persona_def persona_label_def py_str_nat_digit ascii_def max_id_number_def
      id_number_def persona_id_def)

section \<open>Parser tolerance (C4)\<close>

lemma dropWhile_hd: "xs \<noteq> [] \<Longrightarrow> \<not> P (hd xs) \<Longrightarrow> dropWhile P xs = xs"
  by (cases xs) simp_all

lemma py_strip_spaces:
  assumes "all_space w1" and "all_space w2"
  shows "py_strip (w1 @ s @ w2) = py_strip s"
proof -
  have w1: "\<And>x. x \<in> set w1 \<Longrightarrow> py_isspace x" and w2: "\<And>x. x \<in> set w2 \<Longrightarrow> py_isspace x"
    using assms by (simp_all add: all_space_def list_all_iff)
  have l: "dropWhile py_isspace (w1 @ s @ w2) = dropWhile py_isspace (s @ w2)"
    using w1 by (simp add: dropWhile_append2)
  show ?thesis
  proof (cases "\<forall>x\<in>set s. py_isspace x")
    case True
    then have e: "dropWhile py_isspace (s @ w2) = []" "dropWhile py_isspace s = []"
      using w2 by (simp_all add: dropWhile_eq_Nil_conv)
    show ?thesis unfolding py_strip_def l e by simp
  next
    case False
    then obtain x where "x \<in> set s" "\<not> py_isspace x" by blast
    then have "dropWhile py_isspace (s @ w2) = dropWhile py_isspace s @ w2"
      by (simp add: dropWhile_append1)
    moreover have "dropWhile py_isspace (rev w2 @ rev (dropWhile py_isspace s))
                     = dropWhile py_isspace (rev (dropWhile py_isspace s))"
    proof (rule dropWhile_append2)
      fix x assume "x \<in> set (rev w2)"
      then show "py_isspace x" using w2 by simp
    qed
    ultimately show ?thesis unfolding py_strip_def l by simp
  qed
qed

lemma py_strip_id:
  assumes "s \<noteq> []" and "\<not> py_isspace (hd s)" and "\<not> py_isspace (last s)"
  shows "py_strip s = s"
proof -
  have a: "dropWhile py_isspace s = s" using assms(1,2) by (rule dropWhile_hd)
  have "rev s \<noteq> []" "\<not> py_isspace (hd (rev s))" using assms(1,3) by (simp_all add: hd_rev)
  then have "dropWhile py_isspace (rev s) = rev s" by (rule dropWhile_hd)
  then show ?thesis by (simp add: py_strip_def a)
qed

lemma clean_fenced:
  assumes "all_space w1" and "all_space w2"
    and "lead = FENCE_JSON \<or> (lead = FENCE \<and> \<not> startswith (w1 @ j @ w2 @ FENCE) (ascii ''json''))"
  shows "clean_response (lead @ w1 @ j @ w2 @ FENCE) = py_strip j"
proof -
  let ?t = "lead @ w1 @ j @ w2 @ FENCE"
  have nsp: "\<not> py_isspace 96" by (simp add: py_isspace_def)
  have hd96: "hd ?t = 96" and ne: "?t \<noteq> []" and last96: "last ?t = 96"
    using assms(3) by (auto simp: FENCE_def FENCE_JSON_def)
  have st: "py_strip ?t = ?t" using py_strip_id[OF ne] hd96 last96 nsp by simp
  have lead: "drop_leading_fence ?t = w1 @ j @ w2 @ FENCE"
    using assms(3)
  proof
    assume "lead = FENCE_JSON"
    then show ?thesis by (simp add: drop_leading_fence_def startswith_def FENCE_JSON_def)
  next
    assume a: "lead = FENCE \<and> \<not> startswith (w1 @ j @ w2 @ FENCE) (ascii ''json'')"
    then have "\<not> startswith ?t FENCE_JSON"
      by (auto simp: startswith_def FENCE_def FENCE_JSON_def ascii_def)
    then show ?thesis using a by (simp add: drop_leading_fence_def startswith_def FENCE_def)
  qed
  have trail: "drop_trailing_fence (w1 @ j @ w2 @ FENCE) = w1 @ j @ w2"
    by (simp add: drop_trailing_fence_def endswith_def FENCE_def)
  show ?thesis
    unfolding clean_response_def st lead trail using py_strip_spaces[OF assms(1,2)] by simp
qed

lemma scan_braces_string:
  assumes "string_body lit"
  shows "scan_braces depth True False (lit @ 34 # rest)
           = map_option (\<lambda>n. length lit + 1 + n) (scan_braces depth False False rest)"
  using assms
proof (induction lit)
  case sb_end
  show ?case by (simp add: option.map_comp comp_def)
next
  case (sb_char c s)
  then show ?case by (simp add: option.map_comp comp_def)
next
  case (sb_escape s c)
  then show ?case by (simp add: option.map_comp comp_def)
qed

lemma scan_braces_body:
  assumes "block_body b" and "0 < depth"
  shows "scan_braces depth False False (b @ rest)
           = map_option (\<lambda>n. length b + n) (scan_braces depth False False rest)"
  using assms
proof (induction b arbitrary: depth rest)
  case bb_end
  show ?case by (simp add: option.map_ident)
next
  case (bb_char c s)
  then show ?case by (simp add: option.map_comp comp_def)
next
  case (bb_string lit s)
  have "scan_braces depth False False ((34 # lit @ 34 # s) @ rest)
          = map_option Suc (scan_braces depth True False (lit @ 34 # (s @ rest)))"
    by simp
  also have "\<dots> = map_option Suc (map_option (\<lambda>n. length lit + 1 + n)
                      (scan_braces depth False False (s @ rest)))"
    using scan_braces_string[OF bb_string.hyps(1)] by simp
  also have "\<dots> = map_option (\<lambda>n. length (34 # lit @ 34 # s) + n)
                      (scan_braces depth False False rest)"
    using bb_string.IH[OF bb_string.prems] by (simp add: option.map_comp comp_def add.assoc)
  finally show ?case .
next
  case (bb_block b s)
  have d: "0 < depth + 1" "depth + 1 - 1 \<noteq> 0" using bb_block.prems by simp_all
  have "scan_braces depth False False ((123 # b @ 125 # s) @ rest)
          = map_option Suc (scan_braces (depth + 1) False False (b @ 125 # (s @ rest)))"
    by simp
  also have "\<dots> = map_option Suc (map_option (\<lambda>n. length b + n)
                      (scan_braces (depth + 1) False False (125 # (s @ rest))))"
    using bb_block.IH(1)[OF d(1)] by simp
  also have "\<dots> = map_option Suc (map_option (\<lambda>n. length b + n)
                      (map_option Suc (scan_braces depth False False (s @ rest))))"
    using d(2) by simp
  also have "\<dots> = map_option (\<lambda>n. length (123 # b @ 125 # s) + n)
                      (scan_braces depth False False rest)"
    using bb_block.IH(2)[OF bb_block.prems] by (simp add: option.map_comp comp_def add.assoc)
  finally show ?case .
qed

lemma scan_braces_document:
  assumes "brace_document j"
  shows "scan_braces 0 False False (j @ suffix) = Some (length j)"
proof -
  from assms obtain b where b: "block_body b" and j: "j = 123 # b @ [125]"
    by (auto simp: brace_document_def)
  have "scan_braces 0 False False (j @ suffix)
          = map_option Suc (scan_braces 1 False False (b @ 125 # suffix))"
    by (simp add: j)
  also have "\<dots> = map_option Suc (map_option (\<lambda>n. length b + n)
                      (scan_braces 1 False False (125 # suffix)))"
    using scan_braces_body[OF b, of 1] by simp
  also have "\<dots> = Some (length j)" by (simp add: j)
  finally show ?thesis .
qed

lemma first_brace_block_document:
  assumes "123 \<notin> set prose" and "brace_document j"
  shows "first_brace_block (prose @ j @ suffix) = Some j"
proof -
  from assms(2) obtain j' where j: "j = 123 # j'" by (auto simp: brace_document_def)
  have "\<And>x. x \<in> set prose \<Longrightarrow> x \<noteq> 123" using assms(1) by auto
  then have "dropWhile (\<lambda>c. c \<noteq> 123) (prose @ j @ suffix)
               = dropWhile (\<lambda>c. c \<noteq> 123) (j @ suffix)"
    by (rule dropWhile_append2)
  then have "dropWhile (\<lambda>c. c \<noteq> 123) (prose @ j @ suffix) = j @ suffix"
    by (simp add: j)
  moreover have "scan_braces 0 False False (j @ suffix) = Some (length j)"
    using scan_braces_document[OF assms(2)] .
  ultimately show ?thesis by (simp add: first_brace_block_def j)
qed

lemma no_documentD:
  assumes "no_document loads raw_decode t"
  obtains msg where "loads t = Inl msg" and "first_document raw_decode msg t = None"
  using assms by (auto simp: no_document_def split: sum.splits)

lemma parse_attempts_clean_then:
  assumes "no_document loads raw_decode t" and "int a < n - 1"
  shows "parse_attempts loads raw_decode n orig t (a # rest)
           = parse_attempts loads raw_decode n orig (clean_response t) rest"
  using assms by (auto elim!: no_documentD)

lemma parse_attempts_last:
  assumes "no_document loads raw_decode t" and "\<not> int a < n - 1"
    and "first_brace_block orig = Some c" and "loads c = Inr v"
  shows "parse_attempts loads raw_decode n orig t (a # rest) = Inr v"
  using assms by (auto elim!: no_documentD simp: last_resort_def)

text \<open>
  Claim C4, as amended. Let the decoder give the record \<open>v\<close> for the document \<open>j\<close>. The
  parser returns \<open>v\<close> for \<open>j\<close> itself; for \<open>j\<close> followed by trailing text, when the decoder
  reports extra data and its \<open>raw_decode\<close> gives \<open>v\<close>; for \<open>j\<close> inside a fence with the tag
  \<open>json\<close> or with no tag, with white space around \<open>j\<close>, when the decoder finds no document
  in the fenced text; and for \<open>j\<close> preceded by prose (and followed by any text), when the
  prose has no opening brace, \<open>j\<close> is a brace-delimited document, and the decoder finds no
  document in the text and in its two cleaned forms.
\<close>

theorem parse_json_tolerance:
  assumes "loads j = Inr v"
  shows "parse_json loads raw_decode j None = Inr v \<and>
         (loads (j @ trailing) = Inl msg \<and> py_contains (ascii ''Extra data'') msg \<and>
          raw_decode (j @ trailing) = Inr (v, k) \<longrightarrow>
            parse_json loads raw_decode (j @ trailing) None = Inr v) \<and>
         (all_space w1 \<and> all_space w2 \<and> py_strip j = j \<and>
          no_document loads raw_decode (FENCE_JSON @ w1 @ j @ w2 @ FENCE) \<longrightarrow>
            parse_json loads raw_decode (FENCE_JSON @ w1 @ j @ w2 @ FENCE) None = Inr v) \<and>
         (all_space w1 \<and> all_space w2 \<and> py_strip j = j \<and>
          \<not> startswith (w1 @ j @ w2 @ FENCE) (ascii ''json'') \<and>
          no_document loads raw_decode (FENCE @ w1 @ j @ w2 @ FENCE) \<longrightarrow>
            parse_json loads raw_decode (FENCE @ w1 @ j @ w2 @ FENCE) None = Inr v) \<and>
         (123 \<notin> set prose \<and> brace_document j \<and>
          no_document loads raw_decode (prose @ j @ suffix) \<and>
          no_document loads raw_decode (clean_response (prose @ j @ suffix)) \<and>
          no_document loads raw_decode (clean_response (clean_response (prose @ j @ suffix))) \<longrightarrow>
            parse_json loads raw_decode (prose @ j @ suffix) None = Inr v)"
proof -
  have p1: "parse_json loads raw_decode j None = Inr v"
    using assms by (simp add: parse_json_def upt_0_3)
  have p2: "parse_json loads raw_decode (j @ trailing) None = Inr v"
    if "loads (j @ trailing) = Inl msg" "py_contains (ascii ''Extra data'') msg"
       "raw_decode (j @ trailing) = Inr (v, k)"
    using that by (simp add: parse_json_def upt_0_3 first_document_def)
  have fenced: "parse_json loads raw_decode (lead @ w1 @ j @ w2 @ FENCE) None = Inr v"
    if sp: "all_space w1" "all_space w2" and st: "py_strip j = j"
      and ld: "lead = FENCE_JSON \<or> (lead = FENCE \<and> \<not> startswith (w1 @ j @ w2 @ FENCE) (ascii ''json''))"
      and nd: "no_document loads raw_decode (lead @ w1 @ j @ w2 @ FENCE)" for lead
  proof -
    have c: "clean_response (lead @ w1 @ j @ w2 @ FENCE) = j"
      using clean_fenced[OF sp ld] st by simp
    have "parse_attempts loads raw_decode 3 (lead @ w1 @ j @ w2 @ FENCE)
            (lead @ w1 @ j @ w2 @ FENCE) [0, 1, 2]
          = parse_attempts loads raw_decode 3 (lead @ w1 @ j @ w2 @ FENCE) j [1, 2]"
      using parse_attempts_clean_then[OF nd, of 0 3] c by simp
    also have "\<dots> = Inr v" using assms by simp
    finally show ?thesis by (simp add: parse_json_def upt_0_3)
  qed
  have p5: "parse_json loads raw_decode (prose @ j @ suffix) None = Inr v"
    if np: "123 \<notin> set prose" and doc: "brace_document j"
      and n0: "no_document loads raw_decode (prose @ j @ suffix)"
      and n1: "no_document loads raw_decode (clean_response (prose @ j @ suffix))"
      and n2: "no_document loads raw_decode (clean_response (clean_response (prose @ j @ suffix)))"
  proof -
    let ?t = "prose @ j @ suffix"
    have fb: "first_brace_block ?t = Some j" using first_brace_block_document[OF np doc] .
    have "parse_attempts loads raw_decode 3 ?t ?t [0, 1, 2]
          = parse_attempts loads raw_decode 3 ?t (clean_response ?t) [1, 2]"
      using parse_attempts_clean_then[OF n0, of 0 3] by simp
    also have "\<dots> = parse_attempts loads raw_decode 3 ?t (clean_response (clean_response ?t)) [2]"
      using parse_attempts_clean_then[OF n1, of 1 3] by simp
    also have "\<dots> = Inr v"
      using parse_attempts_last[OF n2 _ fb assms, of 2 3] by simp
    finally show ?thesis by (simp add: parse_json_def upt_0_3)
  qed
  from p1 p2 fenced[of FENCE_JSON] fenced[of FENCE] p5 show ?thesis by blast
qed

lemmas decoder_defs = json_loads_def json_raw_decode_def skip_ws_def startswith_def scan_int_def
  scan_nat_def is_digit_def no_fraction_def unescape_def

lemmas parser_defs = parse_json_def upt_0_3 first_document_def last_resort_def
  first_brace_block_def clean_response_def drop_leading_fence_def drop_trailing_fence_def
  py_strip_def py_isspace_def FENCE_def FENCE_JSON_def endswith_def no_document_def

text \<open>
  The hypotheses hold for the document \<open>{"a": {"b": "}"}}\<close>, which has a nested block
  and a closing brace inside a string: alone, followed by \<open>ok\<close>, inside both fences, and
  between \<open>Here:\<close> and \<open>done\<close>, with the decoder for concrete texts.
\<close>

theorem parse_json_tolerance_witness:
  "json_loads [123, 34, 97, 34, 58, 32, 123, 34, 98, 34, 58, 32, 34, 125, 34, 125, 125]
     = Inr (JObj [(ascii ''a'', JObj [(ascii ''b'', JStr [125])])]) \<and>
   parse_json json_loads json_raw_decode
     [123, 34, 97, 34, 58, 32, 123, 34, 98, 34, 58, 32, 34, 125, 34, 125, 125] None
     = Inr (JObj [(ascii ''a'', JObj [(ascii ''b'', JStr [125])])]) \<and>
   parse_json json_loads json_raw_decode
     ([123, 34, 97, 34, 58, 32, 123, 34, 98, 34, 58, 32, 34, 125, 34, 125, 125] @ ascii '' ok'') None
     = Inr (JObj [(ascii ''a'', JObj [(ascii ''b'', JStr [125])])]) \<and>
   parse_json json_loads json_raw_decode
     (FENCE_JSON @ [10] @
      [123, 34, 97, 34, 58, 32, 123, 34, 98, 34, 58, 32, 34, 125, 34, 125, 125] @ [10] @ FENCE) None
     = Inr (JObj [(ascii ''a'', JObj [(ascii ''b'', JStr [125])])]) \<and>
   parse_json json_loads json_raw_decode
     (FENCE @ [10] @
      [123, 34, 97, 34, 58, 32, 123, 34, 98, 34, 58, 32, 34, 125, 34, 125, 125] @ [10] @ FENCE) None
     = Inr (JObj [(ascii ''a'', JObj [(ascii ''b'', JStr [125])])]) \<and>
   parse_json json_loads json_raw_decode
     (ascii ''Here: '' @
      [123, 34, 97, 34, 58, 32, 123, 34, 98, 34, 58, 32, 34, 125, 34, 125, 125] @ ascii '' done'') None
     = Inr (JObj [(ascii ''a'', JObj [(ascii ''b'', JStr [125])])])"
proof -
  let ?j = "[123, 34, 97, 34, 58, 32, 123, 34, 98, 34, 58, 32, 34, 125, 34, 125, 125] :: pstr"
  let ?v = "JObj [(ascii ''a'', JObj [(ascii ''b'', JStr [125])])]"
  have h: "json_loads ?j = Inr ?v"
    by (simp add: decoder_defs ascii_def)
  note t = parse_json_tolerance[where loads = json_loads and j = ?j and v = ?v
      and raw_decode = json_raw_decode and trailing = "ascii '' ok''"
      and msg = "ascii ''Extra data''" and k = 17 and ?w1.0 = "[10]" and ?w2.0 = "[10]"
      and prose = "ascii ''Here: ''" and suffix = "ascii '' done''", OF h]
  have a2: "json_loads (?j @ ascii '' ok'') = Inl (ascii ''Extra data'') \<and>
            py_contains (ascii ''Extra data'') (ascii ''Extra data'') \<and>
            json_raw_decode (?j @ ascii '' ok'') = Inr (?v, 17)"
    by (simp add: decoder_defs ascii_def)
  have sp: "all_space [10]" by (simp add: all_space_def py_isspace_def)
  have st: "py_strip ?j = ?j" by (simp add: py_strip_def py_isspace_def)
  have a3: "no_document json_loads json_raw_decode (FENCE_JSON @ [10] @ ?j @ [10] @ FENCE)"
    by (simp add: decoder_defs no_document_def first_document_def FENCE_def FENCE_JSON_def ascii_def)
  have a4: "\<not> startswith ([10] @ ?j @ [10] @ FENCE) (ascii ''json'') \<and>
            no_document json_loads json_raw_decode (FENCE @ [10] @ ?j @ [10] @ FENCE)"
    by (simp add: decoder_defs no_document_def first_document_def FENCE_def ascii_def)
  have s1: "string_body [97]" and s2: "string_body [98]" and s3: "string_body [125]"
    by (simp_all add: string_body.intros)
  have b3: "block_body [34, 125, 34]" using bb_string[OF s3 bb_end] by simp
  have b2: "block_body [58, 32, 34, 125, 34]" using b3 by (simp add: bb_char)
  have b1: "block_body [34, 98, 34, 58, 32, 34, 125, 34]" using bb_string[OF s2 b2] by simp
  have b0: "block_body [58, 32, 123, 34, 98, 34, 58, 32, 34, 125, 34, 125]"
    using bb_block[OF b1 bb_end] by (simp add: bb_char)
  have ba: "block_body [34, 97, 34, 58, 32, 123, 34, 98, 34, 58, 32, 34, 125, 34, 125]"
    using bb_string[OF s1 b0] by simp
  have doc: "brace_document ?j"
    unfolding brace_document_def using ba by simp
  have a5: "123 \<notin> set (ascii ''Here: '') \<and>
          no_document json_loads json_raw_decode (ascii ''Here: '' @ ?j @ ascii '' done'') \<and>
          no_document json_loads json_raw_decode (clean_response (ascii ''Here: '' @ ?j @ ascii '' done'')) \<and>
          no_document json_loads json_raw_decode
            (clean_response (clean_response (ascii ''Here: '' @ ?j @ ascii '' done'')))"
    by (simp add: decoder_defs parser_defs ascii_def)
  from t a2 sp st a3 a4 a5 doc h show ?thesis by blast
qed

text \<open>
  Claim C4 as stated fails: the document \<open>{"a": 1}\<close> alone is parsed, and the same
  document preceded by the prose \<open>Use {x}:\<close> raises, because the last resort tries only
  the first brace block of the text, \<open>{x}\<close>.
\<close>

theorem parse_json_prose_brace_counterexample:
  "parse_json json_loads json_raw_decode [123, 34, 97, 34, 58, 32, 49, 125] None
     = Inr (JObj [(ascii ''a'', JInt 1)]) \<and>
   isl (parse_json json_loads json_raw_decode
          (ascii ''Use {x}: '' @ [123, 34, 97, 34, 58, 32, 49, 125]) None)"
  by (simp add: decoder_defs parser_defs ascii_def)


end
